theory Spec2Isabelle
  imports Complex_Main
begin

section \<open>Data model\<close>

text \<open>
  The notebook works on floating-point arrays. A cell is modelled as an exact real or as
  missing: \<open>None\<close> stands for NaN, \<open>Some v\<close> for the finite value \<open>v\<close>. Rounding and
  infinite inputs are outside the model. The only place where an infinity can arise from
  such cells is a zero raised to a negative exponent; the result type of \<open>np_power\<close>
  makes that explicit.
\<close>

datatype py_error =
  ValueError | ZeroDivisionError | IndexError | KeyError | OSError | OtherError string

type_synonym cell = "real option"

datatype npfloat = Fin real | PosInf | NaN

text \<open>A numpy array: its shape and its cells in row-major order.\<close>

record 'a ndarray =
  shape :: "nat list"
  cells :: "'a list"

text \<open>An xarray variable: named dimensions over an array.\<close>

record 'a data_array =
  dims :: "string list"
  arr :: "'a ndarray"

text \<open>
  An xarray dataset: data variables, coordinate variables and attributes, each a
  dictionary in insertion order.
\<close>

record dataset =
  data_vars :: "(string \<times> cell data_array) list"
  coords :: "(string \<times> cell data_array) list"
  attrs :: "(string \<times> string) list"

definition sentinel :: real where
  "sentinel = - (1 / 100)"

section \<open>Masking the sentinel\<close>

text \<open>
  \<^verbatim>\<open>ds['reflectance'] != -0.01\<close>: the elementwise comparison. A NaN cell differs from
  every number, so the comparison is true there.
\<close>

definition ne_scalar :: "cell ndarray \<Rightarrow> real \<Rightarrow> bool ndarray" where
  "ne_scalar a s = \<lparr>shape = shape a, cells = map (\<lambda>c. c \<noteq> Some s) (cells a)\<rparr>"

text \<open>
  \<^verbatim>\<open>a.where(cond)\<close> for a condition of the shape of \<open>a\<close>: a cell is kept where the
  condition holds and becomes NaN elsewhere.
\<close>

definition where_cell :: "cell \<Rightarrow> bool \<Rightarrow> cell" where
  "where_cell c k = (if k then c else None)"

definition where_values :: "cell ndarray \<Rightarrow> bool ndarray \<Rightarrow> cell ndarray" where
  "where_values a cond = \<lparr>shape = shape a, cells = map2 where_cell (cells a) (cells cond)\<rparr>"

text \<open>\<^verbatim>\<open>x.where(x != -0.01)\<close> on one array.\<close>

definition mask_sentinel :: "cell ndarray \<Rightarrow> cell ndarray" where
  "mask_sentinel a = where_values a (ne_scalar a sentinel)"

definition count_missing :: "cell ndarray \<Rightarrow> nat" where
  "count_missing a = length (filter (\<lambda>c. c = None) (cells a))"

definition count_sentinel :: "cell ndarray \<Rightarrow> nat" where
  "count_sentinel a = length (filter (\<lambda>c. c = Some sentinel) (cells a))"

text \<open>The same comparison and selection on xarray variables of equal dimensions.\<close>

definition da_ne :: "cell data_array \<Rightarrow> real \<Rightarrow> bool data_array" where
  "da_ne v s = \<lparr>dims = dims v, arr = ne_scalar (arr v) s\<rparr>"

text \<open>
  \<^verbatim>\<open>v.where(cond)\<close>: elementwise when the condition has the dimensions and shape of
  \<open>v\<close>. Otherwise xarray broadcasts the two against each other by dimension name;
  that part of the library is the parameter \<open>bcast\<close>.
\<close>

definition da_where ::
  "(cell data_array \<Rightarrow> bool data_array \<Rightarrow> cell data_array) \<Rightarrow>
   cell data_array \<Rightarrow> bool data_array \<Rightarrow> cell data_array" where
  "da_where bcast v cond =
     (if dims v = dims cond \<and> shape (arr v) = shape (arr cond)
      then \<lparr>dims = dims v, arr = where_values (arr v) (arr cond)\<rparr>
      else bcast v cond)"

text \<open>The position of a dimension name among the dimensions of a variable.\<close>

fun index_of :: "'a \<Rightarrow> 'a list \<Rightarrow> nat option" where
  "index_of x [] = None"
| "index_of x (y # ys) = (if x = y then Some 0 else map_option Suc (index_of x ys))"

text \<open>
  The size of a dimension of a dataset: the extent, along that dimension, of the first
  variable that has it.
\<close>

fun dim_size :: "(string \<times> 'a data_array) list \<Rightarrow> string \<Rightarrow> nat option" where
  "dim_size [] d = None"
| "dim_size ((n, v) # vs) d =
     (case index_of d (dims v) of
        None \<Rightarrow> dim_size vs d
      | Some ax \<Rightarrow> Some (shape (arr v) ! ax))"

text \<open>
  \<^verbatim>\<open>ds[name]\<close>: a data variable or a coordinate; for the name of a dimension that has no
  variable, the default index \<open>0, ..., n - 1\<close> along it; KeyError otherwise.
\<close>

definition getitem :: "dataset \<Rightarrow> string \<Rightarrow> py_error + cell data_array" where
  "getitem ds name =
     (case map_of (data_vars ds @ coords ds) name of
        Some v \<Rightarrow> Inr v
      | None \<Rightarrow>
          (case dim_size (data_vars ds @ coords ds) name of
             Some n \<Rightarrow>
               Inr \<lparr>dims = [name],
                    arr = \<lparr>shape = [n], cells = map (\<lambda>k. Some (real k)) [0..<n]\<rparr>\<rparr>
           | None \<Rightarrow> Inl KeyError))"

text \<open>A dictionary store: an existing key keeps its place, a new key goes last.\<close>

fun dict_set :: "(string \<times> 'v) list \<Rightarrow> string \<Rightarrow> 'v \<Rightarrow> (string \<times> 'v) list" where
  "dict_set [] k v = [(k, v)]"
| "dict_set ((k', v') # kvs) k v =
     (if k' = k then (k, v) # kvs else (k', v') # dict_set kvs k v)"

text \<open>
  \<^verbatim>\<open>ds[name] = v\<close>: a name that is a coordinate stays one; any other name is
  a data variable.
\<close>

definition setitem :: "dataset \<Rightarrow> string \<Rightarrow> cell data_array \<Rightarrow> dataset" where
  "setitem ds name v =
     (if name \<in> fst ` set (coords ds)
      then ds\<lparr>coords := dict_set (coords ds) name v\<rparr>
      else ds\<lparr>data_vars := dict_set (data_vars ds) name v\<rparr>)"

text \<open>
  \<^verbatim>\<open>ds['reflectance'] = ds['reflectance'].where(ds['reflectance'] != -0.01)\<close>
\<close>

definition mask_reflectance ::
  "(cell data_array \<Rightarrow> bool data_array \<Rightarrow> cell data_array) \<Rightarrow> dataset \<Rightarrow> py_error + dataset" where
  "mask_reflectance bcast ds =
     (case getitem ds ''reflectance'' of
        Inl e \<Rightarrow> Inl e
      | Inr r \<Rightarrow>
          (case getitem ds ''reflectance'' of
             Inl e \<Rightarrow> Inl e
           | Inr r' \<Rightarrow>
               Inr (setitem ds ''reflectance'' (da_where bcast r (da_ne r' sentinel)))))"

text \<open>
  \<^verbatim>\<open>ds_geo = ds_geo.where(ds_geo['reflectance'] != -0.01)\<close>: the dataset method
  applies the selection to every data variable and keeps coordinates and attributes.
\<close>

definition dataset_where ::
  "(cell data_array \<Rightarrow> bool data_array \<Rightarrow> cell data_array) \<Rightarrow>
   dataset \<Rightarrow> bool data_array \<Rightarrow> dataset" where
  "dataset_where bcast ds cond =
     ds\<lparr>data_vars := map (\<lambda>(n, v). (n, da_where bcast v cond)) (data_vars ds)\<rparr>"

definition mask_dataset ::
  "(cell data_array \<Rightarrow> bool data_array \<Rightarrow> cell data_array) \<Rightarrow> dataset \<Rightarrow> py_error + dataset" where
  "mask_dataset bcast ds =
     (case getitem ds ''reflectance'' of
        Inl e \<Rightarrow> Inl e
      | Inr r \<Rightarrow> Inr (dataset_where bcast ds (da_ne r sentinel)))"

section \<open>Selecting a band\<close>

text \<open>
  Taking index \<open>i\<close> along axis \<open>ax\<close> of a row-major array: for each position of the
  axes before \<open>ax\<close>, the block of the axes after it.
\<close>

definition take_axis :: "'a ndarray \<Rightarrow> nat \<Rightarrow> nat \<Rightarrow> 'a ndarray" where
  "take_axis a ax i =
     (let outer = prod_list (take ax (shape a));
          n = shape a ! ax;
          inner = prod_list (drop (Suc ax) (shape a))
      in \<lparr>shape = take ax (shape a) @ drop (Suc ax) (shape a),
          cells = concat (map (\<lambda>k. take inner (drop ((k * n + i) * inner) (cells a))) [0..<outer])\<rparr>)"

text \<open>
  \<^verbatim>\<open>v.isel(d=i)\<close>: ValueError when \<open>v\<close> has no dimension \<open>d\<close>; a negative index counts
  from the end; IndexError when the index is out of range.
\<close>

definition isel :: "'a data_array \<Rightarrow> string \<Rightarrow> int \<Rightarrow> py_error + 'a data_array" where
  "isel v d i =
     (case index_of d (dims v) of
        None \<Rightarrow> Inl ValueError
      | Some ax \<Rightarrow>
          (let n = int (shape (arr v) ! ax);
               j = (if i < 0 then i + n else i)
           in if 0 \<le> j \<and> j < n
              then Inr \<lparr>dims = take ax (dims v) @ drop (Suc ax) (dims v),
                        arr = take_axis (arr v) ax (nat j)\<rparr>
              else Inl IndexError))"

section \<open>Nearest band\<close>

text \<open>\<^verbatim>\<open>a - t\<close> and \<^verbatim>\<open>abs(a)\<close>, elementwise; NaN stays NaN.\<close>

definition sub_scalar :: "cell ndarray \<Rightarrow> real \<Rightarrow> cell ndarray" where
  "sub_scalar a t = \<lparr>shape = shape a, cells = map (map_option (\<lambda>w. w - t)) (cells a)\<rparr>"

definition np_abs :: "cell ndarray \<Rightarrow> cell ndarray" where
  "np_abs a = \<lparr>shape = shape a, cells = map (map_option abs) (cells a)\<rparr>"

text \<open>Comparison of floats: false whenever a NaN takes part.\<close>

fun nf_ge :: "npfloat \<Rightarrow> npfloat \<Rightarrow> bool" where
  "nf_ge NaN _ = False"
| "nf_ge _ NaN = False"
| "nf_ge PosInf _ = True"
| "nf_ge (Fin x) PosInf = False"
| "nf_ge (Fin x) (Fin y) = (y \<le> x)"

text \<open>
  numpy's argmin over the flattened array: the running minimum \<open>mp\<close> and its index
  \<open>min_ind\<close>; an element replaces the minimum when it is not \<open>\<ge> mp\<close>, and a NaN
  ends the scan. An empty array is a ValueError.
\<close>

fun argmin_loop :: "npfloat list \<Rightarrow> nat \<Rightarrow> npfloat \<Rightarrow> nat \<Rightarrow> nat" where
  "argmin_loop [] i mp min_ind = min_ind"
| "argmin_loop (x # xs) i mp min_ind =
     (if \<not> nf_ge x mp
      then (if x = NaN then i else argmin_loop xs (Suc i) x i)
      else argmin_loop xs (Suc i) mp min_ind)"

definition np_argmin :: "npfloat list \<Rightarrow> py_error + nat" where
  "np_argmin xs =
     (case xs of
        [] \<Rightarrow> Inl ValueError
      | x # rest \<Rightarrow> if x = NaN then Inr 0 else Inr (argmin_loop rest 1 x 0))"

text \<open>
  numpy's nanargmin: NaN cells are replaced by \<open>+inf\<close>, an array that has cells and
  all of them NaN is a ValueError, and the rest is argmin.
\<close>

definition replace_nan :: "cell list \<Rightarrow> npfloat list" where
  "replace_nan cs = map (\<lambda>c. case c of None \<Rightarrow> PosInf | Some v \<Rightarrow> Fin v) cs"

definition nanargmin :: "cell ndarray \<Rightarrow> py_error + nat" where
  "nanargmin a =
     (if cells a \<noteq> [] \<and> (\<forall>c \<in> set (cells a). c = None)
      then Inl ValueError
      else np_argmin (replace_nan (cells a)))"

text \<open>\<^verbatim>\<open>np.nanargmin(abs(ds['wavelengths'].values - t))\<close>\<close>

definition nearest_lookup :: "cell ndarray \<Rightarrow> real \<Rightarrow> py_error + nat" where
  "nearest_lookup wavelengths t = nanargmin (np_abs (sub_scalar wavelengths t))"

definition nearest_band :: "dataset \<Rightarrow> real \<Rightarrow> py_error + nat" where
  "nearest_band ds t =
     (case getitem ds ''wavelengths'' of
        Inl e \<Rightarrow> Inl e
      | Inr w \<Rightarrow> nearest_lookup (arr w) t)"

text \<open>
  The linear scan the lookup is compared with: the bands are visited in order, a missing
  wavelength is skipped, and a band replaces the best one so far when its wavelength is
  strictly nearer to the target. The state is the best index and its distance.
\<close>

fun scan_from :: "cell list \<Rightarrow> real \<Rightarrow> nat \<Rightarrow> (nat \<times> real) option \<Rightarrow> (nat \<times> real) option" where
  "scan_from [] t i best = best"
| "scan_from (None # ws) t i best = scan_from ws t (Suc i) best"
| "scan_from (Some w # ws) t i None = scan_from ws t (Suc i) (Some (i, \<bar>w - t\<bar>))"
| "scan_from (Some w # ws) t i (Some (b, d)) =
     (if \<bar>w - t\<bar> < d then scan_from ws t (Suc i) (Some (i, \<bar>w - t\<bar>))
      else scan_from ws t (Suc i) (Some (b, d)))"

definition linear_scan :: "cell list \<Rightarrow> real \<Rightarrow> py_error + nat" where
  "linear_scan ws t =
     (case scan_from ws t 0 None of
        None \<Rightarrow> Inl ValueError
      | Some (i, d) \<Rightarrow> Inr i)"

text \<open>
  What it means for band \<open>k\<close>, at distance \<open>d\<close> from the target \<open>t\<close>, to be the
  nearest band: its wavelength is present, no present wavelength is nearer, and every
  earlier one is strictly farther.
\<close>

definition first_nearest :: "cell list \<Rightarrow> real \<Rightarrow> nat \<Rightarrow> real \<Rightarrow> bool" where
  "first_nearest ws t k d \<longleftrightarrow>
     k < length ws \<and> (\<exists>w. ws ! k = Some w \<and> d = \<bar>w - t\<bar>) \<and>
     (\<forall>j<length ws. \<forall>v. ws ! j = Some v \<longrightarrow> d \<le> \<bar>v - t\<bar>) \<and>
     (\<forall>j<k. \<forall>v. ws ! j = Some v \<longrightarrow> d < \<bar>v - t\<bar>)"

text \<open>The array the lookup hands to argmin: the distances, with \<open>+inf\<close> for NaN.\<close>

definition dist_cells :: "cell list \<Rightarrow> real \<Rightarrow> npfloat list" where
  "dist_cells ws t = replace_nan (map (map_option abs) (map (map_option (\<lambda>w. w - t)) ws))"

section \<open>Gamma scaling\<close>

fun valid_values :: "cell list \<Rightarrow> real list" where
  "valid_values [] = []"
| "valid_values (None # cs) = valid_values cs"
| "valid_values (Some v # cs) = v # valid_values cs"

text \<open>\<^verbatim>\<open>np.nanmean(array)\<close>: the mean of the cells that are not NaN, NaN when there is none.\<close>

definition nanmean :: "cell ndarray \<Rightarrow> cell" where
  "nanmean a =
     (let vs = valid_values (cells a)
      in if vs = [] then None else Some (sum_list vs / real (length vs)))"

text \<open>\<^verbatim>\<open>math.log(x)\<close>: NaN for NaN, ValueError unless \<open>x\<close> is positive.\<close>

definition math_log :: "cell \<Rightarrow> py_error + cell" where
  "math_log x =
     (case x of
        None \<Rightarrow> Inr None
      | Some v \<Rightarrow> if v \<le> 0 then Inl ValueError else Inr (Some (ln v)))"

text \<open>Python's float division: a zero divisor raises, also under a NaN dividend.\<close>

definition py_truediv :: "cell \<Rightarrow> cell \<Rightarrow> py_error + cell" where
  "py_truediv x y =
     (case y of
        None \<Rightarrow> Inr None
      | Some d \<Rightarrow>
          if d = 0 then Inl ZeroDivisionError
          else (case x of None \<Rightarrow> Inr None | Some n \<Rightarrow> Inr (Some (n / d))))"

text \<open>
  \<^verbatim>\<open>np.power(x, y)\<close> on one cell, as C's pow: anything to the power 0 is 1, and 1 to
  any power is 1, also under NaN; a positive base gives the real power; zero gives 0
  for a positive exponent and \<open>+inf\<close> for a negative one; a negative base gives the
  integer power when the exponent is an integer and NaN otherwise.
\<close>

definition np_power :: "cell \<Rightarrow> cell \<Rightarrow> npfloat" where
  "np_power x y =
     (if y = Some 0 then Fin 1
      else if x = Some 1 then Fin 1
      else (case (x, y) of
              (None, _) \<Rightarrow> NaN
            | (_, None) \<Rightarrow> NaN
            | (Some b, Some e) \<Rightarrow>
                if 0 < b then Fin (b powr e)
                else if b = 0 then (if 0 < e then Fin 0 else PosInf)
                else if of_int \<lfloor>e\<rfloor> = e then Fin (b powi \<lfloor>e\<rfloor>)
                else NaN))"

text \<open>\<^verbatim>\<open>.clip(lo, hi)\<close> on one cell: NaN stays NaN.\<close>

definition clip :: "real \<Rightarrow> real \<Rightarrow> npfloat \<Rightarrow> cell" where
  "clip lo hi x =
     (case x of
        Fin v \<Rightarrow> Some (min (max v lo) hi)
      | PosInf \<Rightarrow> Some hi
      | NaN \<Rightarrow> None)"

text \<open>\<^verbatim>\<open>np.nan_to_num(x, nan=r)\<close> on one cell.\<close>

definition nan_to_num :: "real \<Rightarrow> cell \<Rightarrow> cell" where
  "nan_to_num r x = (case x of None \<Rightarrow> Some r | Some v \<Rightarrow> Some v)"

text \<open>
  \<^verbatim>\<open>math.log(0.2)/math.log(np.nanmean(array))\<close>: the exponent of the gamma scaling.
\<close>

definition gamma_exponent :: "cell ndarray \<Rightarrow> py_error + cell" where
  "gamma_exponent array =
     (case math_log (Some (1 / 5)) of
        Inl e \<Rightarrow> Inl e
      | Inr num \<Rightarrow>
          (case math_log (nanmean array) of
             Inl e \<Rightarrow> Inl e
           | Inr den \<Rightarrow> py_truediv num den))"

text \<open>\<^verbatim>\<open>np.nan_to_num(np.power(x, gamma).clip(0, 1), nan=1)\<close> on one cell.\<close>

definition scale_cell :: "cell \<Rightarrow> cell \<Rightarrow> cell" where
  "scale_cell gamma x = nan_to_num 1 (clip 0 1 (np_power x gamma))"

text \<open>
  \<^verbatim>\<open>
  def gamma_adjust(ds,band):
      array = ds['reflectance'].isel(bands=band).values
      gamma = math.log(0.2)/math.log(np.nanmean(array))
      scaled = np.power(array,gamma).clip(0,1)
      scaled = np.nan_to_num(scaled, nan = 1)
      return scaled
  \<close>
\<close>

definition gamma_adjust :: "dataset \<Rightarrow> int \<Rightarrow> py_error + cell ndarray" where
  "gamma_adjust ds band =
     (case getitem ds ''reflectance'' of
        Inl e \<Rightarrow> Inl e
      | Inr r \<Rightarrow>
          (case isel r ''bands'' band of
             Inl e \<Rightarrow> Inl e
           | Inr v \<Rightarrow>
               (let array = arr v
                in case gamma_exponent array of
                     Inl e \<Rightarrow> Inl e
                   | Inr gamma \<Rightarrow>
                       Inr \<lparr>shape = shape array,
                            cells = map (scale_cell gamma) (cells array)\<rparr>)))"

section \<open>Stacking the bands\<close>

text \<open>
  \<^verbatim>\<open>np.stack(arrays)\<close> along a new first axis: ValueError for an empty list and for
  arrays of different shapes.
\<close>

definition np_stack :: "'a ndarray list \<Rightarrow> py_error + 'a ndarray" where
  "np_stack arrays =
     (case arrays of
        [] \<Rightarrow> Inl ValueError
      | a # rest \<Rightarrow>
          if \<forall>b \<in> set rest. shape b = shape a
          then Inr \<lparr>shape = length arrays # shape a, cells = concat (map cells arrays)\<rparr>
          else Inl ValueError)"

section \<open>The notebook run\<close>

text \<open>
  The code cells of the notebook, run in order from an empty namespace. A library call
  that fails ends the run with the error it raised; a name that is not bound ends it
  with \<open>Unbound\<close> (Python's NameError, raised by the interpreter and not by a library).
\<close>

datatype fault = Raised py_error | Unbound string

definition py_call :: "py_error + 'a \<Rightarrow> ('a \<Rightarrow> fault + 'b) \<Rightarrow> fault + 'b" where
  "py_call m k = (case m of Inl e \<Rightarrow> Inl (Raised e) | Inr x \<Rightarrow> k x)"

definition py_name :: "string \<Rightarrow> 'a option \<Rightarrow> ('a \<Rightarrow> fault + 'b) \<Rightarrow> fault + 'b" where
  "py_name n v k = (case v of None \<Rightarrow> Inl (Unbound n) | Some x \<Rightarrow> k x)"

text \<open>
  The result \<open>m\<close> of a library call raises the fault \<open>f\<close>: the call failed, and \<open>f\<close> is
  the error it failed with.
\<close>

definition raises :: "py_error + 'a \<Rightarrow> fault \<Rightarrow> bool" where
  "raises m f \<longleftrightarrow> (\<exists>e. m = Inl e \<and> f = Raised e)"

text \<open>
  The operations of the external libraries that the notebook calls and that are not
  modelled above are parameters: any function may stand for them, and each may fail.
  \<open>'h\<close> is a netCDF4 file handle, \<open>'p\<close> a plot object. \<open>broadcast\<close> is the
  broadcasting of \<open>where\<close>.
\<close>

datatype plot_call = Line string string string | Image | Rgb

record ('h, 'p) library =
  gv_extension :: "string \<Rightarrow> py_error + unit"
  nc_Dataset :: "string \<Rightarrow> py_error + 'h"
  nc_groups :: "'h \<Rightarrow> py_error + string list"
  open_dataset :: "string \<Rightarrow> string option \<Rightarrow> py_error + dataset"
  xr_merge :: "dataset list \<Rightarrow> py_error + dataset"
  apply_gltx :: "string \<Rightarrow> py_error + dataset"
  ds_isel :: "dataset \<Rightarrow> (string \<times> int) list \<Rightarrow> py_error + dataset"
  ds_sel_nearest :: "dataset \<Rightarrow> (string \<times> real) list \<Rightarrow> py_error + dataset"
  hvplot :: "dataset \<Rightarrow> plot_call \<Rightarrow> py_error + 'p"
  xr_Dataset ::
    "(string \<times> cell data_array) list \<Rightarrow> (string \<times> cell data_array) list \<Rightarrow>
     (string \<times> string) list \<Rightarrow> py_error + dataset"
  broadcast :: "cell data_array \<Rightarrow> bool data_array \<Rightarrow> cell data_array"
  display_html :: "string \<Rightarrow> py_error + unit"
  linked_view ::
    "'p \<Rightarrow> (real \<Rightarrow> real \<Rightarrow> fault + 'p) \<Rightarrow> (real \<Rightarrow> real \<Rightarrow> fault + 'p) \<Rightarrow> py_error + 'p"

text \<open>
  The namespace: the notebook's variables, unbound at first, and the plots shown so far.
  The name \<open>ds\<close> is a netCDF4 handle in cells 7 to 9 (\<open>v_nc\<close>) and an xarray dataset
  from the merge on (\<open>v_ds\<close>).
\<close>

record ('h, 'p) namespace =
  v_nc :: "'h option"
  v_refl :: "dataset option"
  v_wvl :: "dataset option"
  v_ds :: "dataset option"
  v_loc :: "dataset option"
  v_ds_geo :: "dataset option"
  v_b650 :: "nat option"
  v_b560 :: "nat option"
  v_b470 :: "nat option"
  v_r :: "cell ndarray option"
  v_g :: "cell ndarray option"
  v_b :: "cell ndarray option"
  v_rgb :: "cell ndarray option"
  v_ds_rgb :: "dataset option"
  v_map :: "'p option"
  shown :: "'p list"

definition empty_namespace :: "('h, 'p) namespace" where
  "empty_namespace =
     \<lparr>v_nc = None, v_refl = None, v_wvl = None, v_ds = None, v_loc = None, v_ds_geo = None,
      v_b650 = None, v_b560 = None, v_b470 = None, v_r = None, v_g = None, v_b = None,
      v_rgb = None, v_ds_rgb = None, v_map = None, shown = []\<rparr>"

text \<open>\<^verbatim>\<open>gv.extension('bokeh')\<close>\<close>

definition cell_setup :: "('h, 'p) library \<Rightarrow> ('h, 'p) namespace \<Rightarrow> fault + ('h, 'p) namespace" where
  "cell_setup lib s = py_call (gv_extension lib ''bokeh'') (\<lambda>_. Inr s)"

text \<open>\<^verbatim>\<open>ds = nc.Dataset(fp)\<close>\<close>

definition cell_nc_open ::
  "('h, 'p) library \<Rightarrow> string \<Rightarrow> ('h, 'p) namespace \<Rightarrow> fault + ('h, 'p) namespace" where
  "cell_nc_open lib fp s = py_call (nc_Dataset lib fp) (\<lambda>h. Inr (s\<lparr>v_nc := Some h\<rparr>))"

text \<open>\<^verbatim>\<open>ds.groups.keys()\<close>\<close>

definition cell_nc_groups :: "('h, 'p) library \<Rightarrow> ('h, 'p) namespace \<Rightarrow> fault + ('h, 'p) namespace" where
  "cell_nc_groups lib s =
     py_name ''ds'' (v_nc s) (\<lambda>h. py_call (nc_groups lib h) (\<lambda>_. Inr s))"

text \<open>\<^verbatim>\<open>refl = xr.open_dataset(fp)\<close>\<close>

definition cell_open_refl ::
  "('h, 'p) library \<Rightarrow> string \<Rightarrow> ('h, 'p) namespace \<Rightarrow> fault + ('h, 'p) namespace" where
  "cell_open_refl lib fp s =
     py_call (open_dataset lib fp None) (\<lambda>d. Inr (s\<lparr>v_refl := Some d\<rparr>))"

text \<open>\<^verbatim>\<open>wvl = xr.open_dataset(fp,group='sensor_band_parameters')\<close>\<close>

definition cell_open_wvl ::
  "('h, 'p) library \<Rightarrow> string \<Rightarrow> ('h, 'p) namespace \<Rightarrow> fault + ('h, 'p) namespace" where
  "cell_open_wvl lib fp s =
     py_call (open_dataset lib fp (Some ''sensor_band_parameters''))
       (\<lambda>d. Inr (s\<lparr>v_wvl := Some d\<rparr>))"

text \<open>\<^verbatim>\<open>ds = xr.merge([refl,wvl])\<close>\<close>

definition cell_merge :: "('h, 'p) library \<Rightarrow> ('h, 'p) namespace \<Rightarrow> fault + ('h, 'p) namespace" where
  "cell_merge lib s =
     py_name ''refl'' (v_refl s) (\<lambda>r.
     py_name ''wvl'' (v_wvl s) (\<lambda>w.
     py_call (xr_merge lib [r, w]) (\<lambda>d. Inr (s\<lparr>v_nc := None, v_ds := Some d\<rparr>))))"

text \<open>
  \<^verbatim>\<open>ds.isel(downtrack=660,crosstrack=370).hvplot.line(y='reflectance',x=..., color='black')\<close>,
  with \<open>x = 'bands'\<close> before the masking and \<open>x = 'wavelengths'\<close> after it.
\<close>

definition cell_spectrum ::
  "('h, 'p) library \<Rightarrow> string \<Rightarrow> ('h, 'p) namespace \<Rightarrow> fault + ('h, 'p) namespace" where
  "cell_spectrum lib x s =
     py_name ''ds'' (v_ds s) (\<lambda>d.
     py_call (ds_isel lib d [(''downtrack'', 660), (''crosstrack'', 370)]) (\<lambda>sel.
     py_call (hvplot lib sel (Line ''reflectance'' x ''black'')) (\<lambda>p.
     Inr (s\<lparr>shown := shown s @ [p]\<rparr>))))"

text \<open>\<^verbatim>\<open>ds['reflectance'] = ds['reflectance'].where(ds['reflectance']!=-0.01)\<close>\<close>

definition cell_mask :: "('h, 'p) library \<Rightarrow> ('h, 'p) namespace \<Rightarrow> fault + ('h, 'p) namespace" where
  "cell_mask lib s =
     py_name ''ds'' (v_ds s) (\<lambda>d.
     py_call (mask_reflectance (broadcast lib) d) (\<lambda>d'. Inr (s\<lparr>v_ds := Some d'\<rparr>)))"

text \<open>\<^verbatim>\<open>del refl\<close>, \<^verbatim>\<open>del wvl\<close>\<close>

definition cell_del :: "('h, 'p) namespace \<Rightarrow> fault + ('h, 'p) namespace" where
  "cell_del s =
     py_name ''refl'' (v_refl s) (\<lambda>_.
     py_name ''wvl'' (v_wvl s) (\<lambda>_.
     Inr (s\<lparr>v_refl := None, v_wvl := None\<rparr>)))"

text \<open>
  \<^verbatim>\<open>b650 = np.nanargmin(abs(ds['wavelengths'].values-650))\<close>,
  \<^verbatim>\<open>ds.isel(bands=b650).hvplot.image(cmap='viridis', aspect = 'equal')\<close>
\<close>

definition cell_band_image :: "('h, 'p) library \<Rightarrow> ('h, 'p) namespace \<Rightarrow> fault + ('h, 'p) namespace" where
  "cell_band_image lib s =
     py_name ''ds'' (v_ds s) (\<lambda>d.
     py_call (nearest_band d 650) (\<lambda>b.
     py_call (ds_isel lib d [(''bands'', int b)]) (\<lambda>sel.
     py_call (hvplot lib sel Image) (\<lambda>p.
     Inr (s\<lparr>v_b650 := Some b, shown := shown s @ [p]\<rparr>)))))"

text \<open>\<^verbatim>\<open>loc = xr.open_dataset(fp,group='location')\<close>\<close>

definition cell_open_loc ::
  "('h, 'p) library \<Rightarrow> string \<Rightarrow> ('h, 'p) namespace \<Rightarrow> fault + ('h, 'p) namespace" where
  "cell_open_loc lib fp s =
     py_call (open_dataset lib fp (Some ''location'')) (\<lambda>d. Inr (s\<lparr>v_loc := Some d\<rparr>))"

text \<open>\<^verbatim>\<open>ds_geo = gltxr.apply_gltx(fp)\<close>\<close>

definition cell_apply_glt ::
  "('h, 'p) library \<Rightarrow> string \<Rightarrow> ('h, 'p) namespace \<Rightarrow> fault + ('h, 'p) namespace" where
  "cell_apply_glt lib fp s =
     py_call (apply_gltx lib fp) (\<lambda>d. Inr (s\<lparr>v_ds_geo := Some d\<rparr>))"

text \<open>\<^verbatim>\<open>ds_geo.isel(bands=b650).hvplot.image(cmap='viridis', aspect = 'equal', frame_width=500)\<close>\<close>

definition cell_geo_image :: "('h, 'p) library \<Rightarrow> ('h, 'p) namespace \<Rightarrow> fault + ('h, 'p) namespace" where
  "cell_geo_image lib s =
     py_name ''ds_geo'' (v_ds_geo s) (\<lambda>d.
     py_name ''b650'' (v_b650 s) (\<lambda>b.
     py_call (ds_isel lib d [(''bands'', int b)]) (\<lambda>sel.
     py_call (hvplot lib sel Image) (\<lambda>p.
     Inr (s\<lparr>shown := shown s @ [p]\<rparr>)))))"

text \<open>\<^verbatim>\<open>ds_geo = ds_geo.where(ds_geo['reflectance']!=-0.01)\<close>\<close>

definition cell_geo_mask :: "('h, 'p) library \<Rightarrow> ('h, 'p) namespace \<Rightarrow> fault + ('h, 'p) namespace" where
  "cell_geo_mask lib s =
     py_name ''ds_geo'' (v_ds_geo s) (\<lambda>d.
     py_call (mask_dataset (broadcast lib) d) (\<lambda>d'. Inr (s\<lparr>v_ds_geo := Some d'\<rparr>)))"

text \<open>
  \<^verbatim>\<open>ds_geo.sel(Longitude=x,Latitude=y,method='nearest').hvplot.line(y='reflectance',
  x='wavelengths', color=c, frame_width=400)\<close>: cell 36 at the fixed position, and
  the callbacks \<open>point_spectra\<close> and \<open>click_spectra\<close> of the last cell.
\<close>

definition geo_spectrum ::
  "('h, 'p) library \<Rightarrow> ('h, 'p) namespace \<Rightarrow> string \<Rightarrow> real \<Rightarrow> real \<Rightarrow> fault + 'p" where
  "geo_spectrum lib s c x y =
     py_name ''ds_geo'' (v_ds_geo s) (\<lambda>d.
     py_call (ds_sel_nearest lib d [(''Longitude'', x), (''Latitude'', y)]) (\<lambda>sel.
     py_call (hvplot lib sel (Line ''reflectance'' ''wavelengths'' c)) (\<lambda>p. Inr p)))"

definition cell_geo_spectrum :: "('h, 'p) library \<Rightarrow> ('h, 'p) namespace \<Rightarrow> fault + ('h, 'p) namespace" where
  "cell_geo_spectrum lib s =
     (case geo_spectrum lib s ''black'' (- (61833 / 1000)) (- (3971 / 100)) of
        Inl f \<Rightarrow> Inl f
      | Inr p \<Rightarrow> Inr (s\<lparr>shown := shown s @ [p]\<rparr>))"

text \<open>
  \<^verbatim>\<open>
  b650 = np.nanargmin(abs(ds_geo['wavelengths'].values-650))
  b560 = np.nanargmin(abs(ds_geo['wavelengths'].values-560))
  b470 = np.nanargmin(abs(ds_geo['wavelengths'].values-470))
  \<close>
\<close>

definition cell_nearest_bands :: "('h, 'p) namespace \<Rightarrow> fault + ('h, 'p) namespace" where
  "cell_nearest_bands s =
     py_name ''ds_geo'' (v_ds_geo s) (\<lambda>d.
     py_call (nearest_band d 650) (\<lambda>r.
     py_call (nearest_band d 560) (\<lambda>g.
     py_call (nearest_band d 470) (\<lambda>b.
     Inr (s\<lparr>v_b650 := Some r, v_b560 := Some g, v_b470 := Some b\<rparr>)))))"

text \<open>
  \<^verbatim>\<open>
  r = gamma_adjust(ds_geo,b650)
  g = gamma_adjust(ds_geo,b560)
  b = gamma_adjust(ds_geo,b470)
  rgb = np.stack([r,g,b])
  bds = np.array([0,1,2])
  x = ds_geo['Longitude'].values
  y = ds_geo['Latitude'].values
  data_vars = {'RGB':(['bands','Latitude','Longitude'], rgb)}
  coords = {'bands':(['bands'],bds), 'Latitude':(['Latitude'],y), 'Longitude':(['Longitude'],x)}
  attrs = ds_geo.attrs
  ds_rgb = xr.Dataset(data_vars=data_vars, coords=coords, attrs=attrs)
  \<close>
\<close>

definition cell_rgb :: "('h, 'p) library \<Rightarrow> ('h, 'p) namespace \<Rightarrow> fault + ('h, 'p) namespace" where
  "cell_rgb lib s =
     py_name ''ds_geo'' (v_ds_geo s) (\<lambda>d.
     py_name ''b650'' (v_b650 s) (\<lambda>b650.
     py_call (gamma_adjust d (int b650)) (\<lambda>r.
     py_name ''b560'' (v_b560 s) (\<lambda>b560.
     py_call (gamma_adjust d (int b560)) (\<lambda>g.
     py_name ''b470'' (v_b470 s) (\<lambda>b470.
     py_call (gamma_adjust d (int b470)) (\<lambda>b.
     py_call (np_stack [r, g, b]) (\<lambda>rgb.
     py_call (getitem d ''Longitude'') (\<lambda>x.
     py_call (getitem d ''Latitude'') (\<lambda>y.
     py_call (xr_Dataset lib
        [(''RGB'', \<lparr>dims = [''bands'', ''Latitude'', ''Longitude''], arr = rgb\<rparr>)]
        [(''bands'', \<lparr>dims = [''bands''], arr = \<lparr>shape = [3], cells = [Some 0, Some 1, Some 2]\<rparr>\<rparr>),
         (''Latitude'', \<lparr>dims = [''Latitude''], arr = arr y\<rparr>),
         (''Longitude'', \<lparr>dims = [''Longitude''], arr = arr x\<rparr>)]
        (attrs d)) (\<lambda>ds_rgb.
     Inr (s\<lparr>v_r := Some r, v_g := Some g, v_b := Some b, v_rgb := Some rgb,
            v_ds_rgb := Some ds_rgb\<rparr>))))))))))))"

text \<open>\<^verbatim>\<open>map = ds_rgb.hvplot.rgb(x='Longitude', y='Latitude', bands='bands', ...)\<close>\<close>

definition cell_map :: "('h, 'p) library \<Rightarrow> ('h, 'p) namespace \<Rightarrow> fault + ('h, 'p) namespace" where
  "cell_map lib s =
     py_name ''ds_rgb'' (v_ds_rgb s) (\<lambda>d.
     py_call (hvplot lib d Rgb) (\<lambda>p. Inr (s\<lparr>v_map := Some p\<rparr>)))"

text \<open>
  The last cell: the style element, the two streams on \<open>map\<close>, the two dynamic maps
  over the callbacks, and the layout \<^verbatim>\<open>(map + click_dmap*point_dmap)\<close>.
\<close>

definition cell_linked :: "('h, 'p) library \<Rightarrow> ('h, 'p) namespace \<Rightarrow> fault + ('h, 'p) namespace" where
  "cell_linked lib s =
     py_call (display_html lib ''<style>div.output_scroll { height: 44em; }</style>'') (\<lambda>_.
     py_name ''map'' (v_map s) (\<lambda>m.
     py_call (linked_view lib m (geo_spectrum lib s ''#1b9e77'') (geo_spectrum lib s ''#d95f02''))
       (\<lambda>p. Inr (s\<lparr>shown := shown s @ [p]\<rparr>))))"

text \<open>Running cells in order: the first fault ends the run.\<close>

fun run_cells :: "('s \<Rightarrow> fault + 's) list \<Rightarrow> 's \<Rightarrow> fault + 's" where
  "run_cells [] s = Inr s"
| "run_cells (c # cs) s = (case c s of Inl f \<Rightarrow> Inl f | Inr s' \<Rightarrow> run_cells cs s')"

definition notebook_cells ::
  "('h, 'p) library \<Rightarrow> string \<Rightarrow> (('h, 'p) namespace \<Rightarrow> fault + ('h, 'p) namespace) list" where
  "notebook_cells lib fp =
     [cell_setup lib, cell_nc_open lib fp, cell_nc_groups lib, cell_open_refl lib fp,
      cell_open_wvl lib fp, cell_merge lib, cell_spectrum lib ''bands'', cell_mask lib,
      cell_del, cell_spectrum lib ''wavelengths'', cell_band_image lib, cell_open_loc lib fp,
      cell_apply_glt lib fp, cell_geo_image lib, cell_geo_mask lib, cell_geo_spectrum lib,
      cell_nearest_bands, cell_rgb lib, cell_map lib, cell_linked lib]"

definition notebook :: "('h, 'p) library \<Rightarrow> string \<Rightarrow> fault + ('h, 'p) namespace" where
  "notebook lib fp = run_cells (notebook_cells lib fp) empty_namespace"

section \<open>Example data\<close>

text \<open>
  Small datasets on which the theorems below are instantiated. \<open>ex_mask\<close> is a gridded
  dataset of one pixel and three bands with one sentinel cell and one NaN cell; the
  others are gridded datasets whose bands have chosen means.
\<close>

definition ex_refl :: "cell data_array" where
  "ex_refl = \<lparr>dims = [''Latitude'', ''Longitude'', ''bands''],
              arr = \<lparr>shape = [1, 1, 3], cells = [Some (3 / 10), Some sentinel, None]\<rparr>\<rparr>"

definition ex_wavelengths :: "cell data_array" where
  "ex_wavelengths = \<lparr>dims = [''bands''], arr = \<lparr>shape = [3], cells = [Some 470, Some 560, Some 650]\<rparr>\<rparr>"

definition ex_mask :: dataset where
  "ex_mask = \<lparr>data_vars = [(''reflectance'', ex_refl)],
              coords = [(''wavelengths'', ex_wavelengths)],
              attrs = [(''title'', ''EMIT L2A'')]\<rparr>"


text \<open>
  \<open>ex_mask\<close> with a second data variable of the dimensions and shape of the
  reflectance.
\<close>

definition ex_other :: "cell data_array" where
  "ex_other = \<lparr>dims = [''Latitude'', ''Longitude'', ''bands''],
               arr = \<lparr>shape = [1, 1, 3], cells = [Some 7, Some 8, Some 9]\<rparr>\<rparr>"

definition ex_two :: dataset where
  "ex_two = ex_mask\<lparr>data_vars := [(''reflectance'', ex_refl), (''other'', ex_other)]\<rparr>"

text \<open>The reflectance of \<open>ex_mask\<close> and the variable \<open>ex_other\<close> after the masking.\<close>

definition ex_refl_masked :: "cell data_array" where
  "ex_refl_masked = ex_refl\<lparr>arr := \<lparr>shape = [1, 1, 3], cells = [Some (3 / 10), None, None]\<rparr>\<rparr>"

definition ex_masked :: dataset where
  "ex_masked = ex_mask\<lparr>data_vars := [(''reflectance'', ex_refl_masked)]\<rparr>"

definition ex_other_masked :: "cell data_array" where
  "ex_other_masked = ex_other\<lparr>arr := \<lparr>shape = [1, 1, 3], cells = [Some 7, None, Some 9]\<rparr>\<rparr>"

text \<open>
  A library in which every call succeeds with a fixed value, except that \<open>apply_gltx\<close>
  fails with OSError.
\<close>

definition ex_library :: "(unit, unit) library" where
  "ex_library =
     \<lparr>gv_extension = (\<lambda>_. Inr ()),
      nc_Dataset = (\<lambda>_. Inr ()),
      nc_groups = (\<lambda>_. Inr [''sensor_band_parameters'', ''location'']),
      open_dataset = (\<lambda>_ _. Inr ex_mask),
      xr_merge = (\<lambda>_. Inr ex_mask),
      apply_gltx = (\<lambda>_. Inl OSError),
      ds_isel = (\<lambda>d _. Inr d),
      ds_sel_nearest = (\<lambda>d _. Inr d),
      hvplot = (\<lambda>_ _. Inr ()),
      xr_Dataset = (\<lambda>dv co ats. Inr \<lparr>data_vars = dv, coords = co, attrs = ats\<rparr>),
      broadcast = (\<lambda>v _. v),
      display_html = (\<lambda>_. Inr ()),
      linked_view = (\<lambda>m _ _. Inr m)\<rparr>"

definition grid_refl :: "nat list \<Rightarrow> cell list \<Rightarrow> cell data_array" where
  "grid_refl sh cs =
     \<lparr>dims = [''Latitude'', ''Longitude'', ''bands''], arr = \<lparr>shape = sh, cells = cs\<rparr>\<rparr>"

definition grid :: "nat list \<Rightarrow> cell list \<Rightarrow> dataset" where
  "grid sh cs = \<lparr>data_vars = [(''reflectance'', grid_refl sh cs)], coords = [], attrs = []\<rparr>"

definition band_slice :: "nat list \<Rightarrow> cell list \<Rightarrow> cell data_array" where
  "band_slice sh cs = \<lparr>dims = [''Latitude'', ''Longitude''], arr = \<lparr>shape = sh, cells = cs\<rparr>\<rparr>"

text \<open>Three pixels, three bands: the bands have means 1/2, 1 and -1/8.\<close>

definition ex_means_cells :: "cell list" where
  "ex_means_cells =
     [Some (1 / 4), Some (1 / 2), Some (- (1 / 2)),
      Some (1 / 2), Some 1, Some (1 / 4),
      Some (3 / 4), Some (3 / 2), None]"

definition ex_means :: dataset where
  "ex_means = grid [1, 3, 3] ex_means_cells"



text \<open>Two pixels, three bands, every present cell 1/5.\<close>

definition ex_rgb_cells :: "cell list" where
  "ex_rgb_cells =
     [Some (1 / 5), Some (1 / 5), Some (1 / 5),
      None, Some (1 / 5), None]"

definition ex_rgb :: dataset where
  "ex_rgb = grid [1, 2, 3] ex_rgb_cells"

text \<open>
  A gridded dataset as \<open>apply_gltx\<close> returns it: the reflectance of \<open>ex_rgb\<close> over one
  latitude and two longitudes, with the wavelengths as a coordinate; and the library in
  which \<open>apply_gltx\<close> returns it.
\<close>

definition ex_geo :: dataset where
  "ex_geo =
     \<lparr>data_vars = [(''reflectance'', grid_refl [1, 2, 3] ex_rgb_cells)],
      coords = [(''Latitude'', \<lparr>dims = [''Latitude''], arr = \<lparr>shape = [1], cells = [Some (- (3971 / 100))]\<rparr>\<rparr>),
                (''Longitude'', \<lparr>dims = [''Longitude''],
                   arr = \<lparr>shape = [2], cells = [Some (- (61833 / 1000)), Some (- (61832 / 1000))]\<rparr>\<rparr>),
                (''wavelengths'', ex_wavelengths)],
      attrs = [(''title'', ''EMIT L2A'')]\<rparr>"

definition ex_library_ok :: "(unit, unit) library" where
  "ex_library_ok = ex_library\<lparr>apply_gltx := (\<lambda>_. Inr ex_geo)\<rparr>"

section \<open>Properties of the masking\<close>

lemma map2_where_ne:
  "map2 where_cell xs (map (\<lambda>c. c \<noteq> Some s) xs) = map (\<lambda>c. if c = Some s then None else c) xs"
  by (induction xs) (simp_all add: where_cell_def)

lemma cells_mask_sentinel:
  "cells (mask_sentinel a) = map (\<lambda>c. if c = Some sentinel then None else c) (cells a)"
  by (simp add: mask_sentinel_def where_values_def ne_scalar_def map2_where_ne)

lemma shape_mask_sentinel: "shape (mask_sentinel a) = shape a"
  by (simp add: mask_sentinel_def where_values_def)

lemma count_none_masked:
  "length (filter (\<lambda>c. c = None) (map (\<lambda>c. if c = Some s then None else c) xs)) =
   length (filter (\<lambda>c. c = Some s) xs) + length (filter (\<lambda>c. c = None) xs)"
  by (induction xs) auto

section \<open>Properties of the nearest-band lookup\<close>

lemma dist_cells_simps:
  "dist_cells [] t = []"
  "dist_cells (None # ws) t = PosInf # dist_cells ws t"
  "dist_cells (Some w # ws) t = Fin \<bar>w - t\<bar> # dist_cells ws t"
  by (simp_all add: dist_cells_def replace_nan_def)

lemma scan_sim_some:
  "\<exists>d'. scan_from ws t i (Some (b, d)) = Some (argmin_loop (dist_cells ws t) i (Fin d) b, d')"
proof (induction ws arbitrary: i b d)
  case Nil
  then show ?case by (simp add: dist_cells_simps)
next
  case (Cons c ws)
  show ?case
  proof (cases c)
    case None
    then show ?thesis using Cons.IH [of "Suc i" b d] by (simp add: dist_cells_simps)
  next
    case (Some w)
    then show ?thesis
      using Cons.IH [of "Suc i" b d] Cons.IH [of "Suc i" i "\<bar>w - t\<bar>"]
      by (simp add: dist_cells_simps not_le)
  qed
qed

lemma scan_sim_none_all:
  "\<forall>c \<in> set ws. c = None \<Longrightarrow> scan_from ws t i None = None"
  by (induction ws arbitrary: i) simp_all

lemma scan_sim_none:
  "\<exists>c \<in> set ws. c \<noteq> None \<Longrightarrow>
   \<exists>d'. scan_from ws t i None = Some (argmin_loop (dist_cells ws t) i PosInf b, d')"
proof (induction ws arbitrary: i)
  case Nil
  then show ?case by simp
next
  case (Cons c ws)
  show ?case
  proof (cases c)
    case None
    with Cons.prems have "\<exists>c \<in> set ws. c \<noteq> None" by simp
    from Cons.IH [OF this, of "Suc i"] None show ?thesis by (simp add: dist_cells_simps)
  next
    case (Some w)
    then show ?thesis
      using scan_sim_some [of ws t "Suc i" i "\<bar>w - t\<bar>"] by (simp add: dist_cells_simps)
  qed
qed

lemma nearest_lookup_scan: "nearest_lookup a t = linear_scan (cells a) t"
proof (cases "cells a")
  case Nil
  then show ?thesis
    by (simp add: nearest_lookup_def nanargmin_def np_abs_def sub_scalar_def linear_scan_def
        np_argmin_def replace_nan_def)
next
  case (Cons c ws)
  have cells': "cells (np_abs (sub_scalar a t)) = map (map_option abs) (map (map_option (\<lambda>w. w - t)) (cells a))"
    by (simp add: np_abs_def sub_scalar_def)
  show ?thesis
  proof (cases "\<forall>c \<in> set (cells a). c = None")
    case True
    then have "scan_from (cells a) t 0 None = None" by (rule scan_sim_none_all)
    moreover have "nearest_lookup a t = Inl ValueError"
      using True Cons by (simp add: nearest_lookup_def nanargmin_def cells')
    ultimately show ?thesis by (simp add: linear_scan_def)
  next
    case False
    then have ne: "\<not> (\<forall>c \<in> set (cells (np_abs (sub_scalar a t))). c = None)"
      unfolding cells' by auto
    have "nearest_lookup a t = np_argmin (replace_nan (cells (np_abs (sub_scalar a t))))"
      unfolding nearest_lookup_def nanargmin_def using ne by (simp only: simp_thms if_False)
    then have lk: "nearest_lookup a t = np_argmin (dist_cells (cells a) t)"
      unfolding cells' dist_cells_def .
    show ?thesis
    proof (cases c)
      case None
      with False Cons have "\<exists>c \<in> set ws. c \<noteq> None" by simp
      from scan_sim_none [OF this, of t "Suc 0" 0] obtain d' where
        "scan_from ws t (Suc 0) None = Some (argmin_loop (dist_cells ws t) (Suc 0) PosInf 0, d')"
        by blast
      then show ?thesis using None Cons lk
        by (simp add: linear_scan_def np_argmin_def dist_cells_simps)
    next
      case (Some w)
      from scan_sim_some [of ws t "Suc 0" 0 "\<bar>w - t\<bar>"] obtain d' where
        "scan_from ws t (Suc 0) (Some (0, \<bar>w - t\<bar>)) = Some (argmin_loop (dist_cells ws t) (Suc 0) (Fin \<bar>w - t\<bar>) 0, d')"
        by blast
      then show ?thesis using Some Cons lk
        by (simp add: linear_scan_def np_argmin_def dist_cells_simps)
    qed
  qed
qed

lemma first_nearest_Cons_None:
  "first_nearest ws t k d \<Longrightarrow> first_nearest (None # ws) t (Suc k) d"
  by (auto simp: first_nearest_def nth_Cons' less_Suc_eq_0_disj)

lemma first_nearest_Cons_Some:
  "first_nearest ws t k d \<Longrightarrow> d < \<bar>w - t\<bar> \<Longrightarrow> first_nearest (Some w # ws) t (Suc k) d"
  by (auto simp: first_nearest_def nth_Cons' less_Suc_eq_0_disj)

lemma first_nearest_here:
  "\<forall>j<length ws. \<forall>v. ws ! j = Some v \<longrightarrow> \<bar>w - t\<bar> \<le> \<bar>v - t\<bar> \<Longrightarrow>
   first_nearest (Some w # ws) t 0 \<bar>w - t\<bar>"
  by (auto simp: first_nearest_def nth_Cons' less_Suc_eq_0_disj)

lemma scan_some_char:
  "scan_from ws t i (Some (b, d)) = Some (r, d') \<Longrightarrow>
     (r = b \<and> d' = d \<and> (\<forall>j<length ws. \<forall>v. ws ! j = Some v \<longrightarrow> d \<le> \<bar>v - t\<bar>))
   \<or> (i \<le> r \<and> d' < d \<and> first_nearest ws t (r - i) d')"
proof (induction ws arbitrary: i b d)
  case Nil
  then show ?case by simp
next
  case (Cons c ws)
  show ?case
  proof (cases c)
    case None
    with Cons.prems have "scan_from ws t (Suc i) (Some (b, d)) = Some (r, d')" by simp
    from Cons.IH [OF this] show ?thesis
    proof
      assume "r = b \<and> d' = d \<and> (\<forall>j<length ws. \<forall>v. ws ! j = Some v \<longrightarrow> d \<le> \<bar>v - t\<bar>)"
      then show ?thesis using None by (auto simp: nth_Cons' less_Suc_eq_0_disj)
    next
      assume a: "Suc i \<le> r \<and> d' < d \<and> first_nearest ws t (r - Suc i) d'"
      then have "first_nearest (None # ws) t (Suc (r - Suc i)) d'"
        by (simp add: first_nearest_Cons_None)
      moreover from a have "Suc (r - Suc i) = r - i" by arith
      ultimately show ?thesis using a None by simp
    qed
  next
    case (Some w)
    show ?thesis
    proof (cases "\<bar>w - t\<bar> < d")
      case True
      with Cons.prems Some have "scan_from ws t (Suc i) (Some (i, \<bar>w - t\<bar>)) = Some (r, d')" by simp
      from Cons.IH [OF this] show ?thesis
      proof
        assume a: "r = i \<and> d' = \<bar>w - t\<bar> \<and> (\<forall>j<length ws. \<forall>v. ws ! j = Some v \<longrightarrow> \<bar>w - t\<bar> \<le> \<bar>v - t\<bar>)"
        then have "first_nearest (Some w # ws) t 0 \<bar>w - t\<bar>" by (simp add: first_nearest_here)
        then show ?thesis using a True Some by simp
      next
        assume a: "Suc i \<le> r \<and> d' < \<bar>w - t\<bar> \<and> first_nearest ws t (r - Suc i) d'"
        then have "first_nearest (Some w # ws) t (Suc (r - Suc i)) d'"
          by (simp add: first_nearest_Cons_Some)
        moreover from a have "Suc (r - Suc i) = r - i" by arith
        ultimately show ?thesis using a True Some by simp
      qed
    next
      case False
      with Cons.prems Some have "scan_from ws t (Suc i) (Some (b, d)) = Some (r, d')" by simp
      from Cons.IH [OF this] show ?thesis
      proof
        assume "r = b \<and> d' = d \<and> (\<forall>j<length ws. \<forall>v. ws ! j = Some v \<longrightarrow> d \<le> \<bar>v - t\<bar>)"
        then show ?thesis using Some False by (auto simp: nth_Cons' less_Suc_eq_0_disj)
      next
        assume a: "Suc i \<le> r \<and> d' < d \<and> first_nearest ws t (r - Suc i) d'"
        with False have "d' < \<bar>w - t\<bar>" by simp
        with a have "first_nearest (Some w # ws) t (Suc (r - Suc i)) d'"
          by (simp add: first_nearest_Cons_Some)
        moreover from a have "Suc (r - Suc i) = r - i" by arith
        ultimately show ?thesis using a Some by simp
      qed
    qed
  qed
qed

lemma scan_none_char:
  "scan_from ws t i None = Some (r, d') \<Longrightarrow> i \<le> r \<and> first_nearest ws t (r - i) d'"
proof (induction ws arbitrary: i)
  case Nil
  then show ?case by simp
next
  case (Cons c ws)
  show ?case
  proof (cases c)
    case None
    with Cons.prems have "scan_from ws t (Suc i) None = Some (r, d')" by simp
    from Cons.IH [OF this] have a: "Suc i \<le> r \<and> first_nearest ws t (r - Suc i) d'" .
    then have "first_nearest (None # ws) t (Suc (r - Suc i)) d'"
      by (simp add: first_nearest_Cons_None)
    moreover from a have "Suc (r - Suc i) = r - i" by arith
    ultimately show ?thesis using a None by simp
  next
    case (Some w)
    with Cons.prems have "scan_from ws t (Suc i) (Some (i, \<bar>w - t\<bar>)) = Some (r, d')" by simp
    from scan_some_char [OF this] show ?thesis
    proof
      assume a: "r = i \<and> d' = \<bar>w - t\<bar> \<and> (\<forall>j<length ws. \<forall>v. ws ! j = Some v \<longrightarrow> \<bar>w - t\<bar> \<le> \<bar>v - t\<bar>)"
      then have "first_nearest (Some w # ws) t 0 \<bar>w - t\<bar>" by (simp add: first_nearest_here)
      then show ?thesis using a Some by simp
    next
      assume a: "Suc i \<le> r \<and> d' < \<bar>w - t\<bar> \<and> first_nearest ws t (r - Suc i) d'"
      then have "first_nearest (Some w # ws) t (Suc (r - Suc i)) d'"
        by (simp add: first_nearest_Cons_Some)
      moreover from a have "Suc (r - Suc i) = r - i" by arith
      ultimately show ?thesis using a Some by simp
    qed
  qed
qed

lemma linear_scan_Inr:
  "linear_scan ws t = Inr k \<Longrightarrow> \<exists>d. first_nearest ws t k d"
  using scan_none_char [of ws t 0 k]
  by (auto simp: linear_scan_def split: option.splits)

lemma scan_some_never_none: "scan_from ws t i (Some p) \<noteq> None"
  by (induction ws t i "Some p" arbitrary: p rule: scan_from.induct) auto

lemma scan_none_None: "scan_from ws t i None = None \<Longrightarrow> \<forall>c \<in> set ws. c = None"
proof (induction ws arbitrary: i)
  case Nil
  then show ?case by simp
next
  case (Cons c ws)
  then show ?case by (cases c) (auto simp: scan_some_never_none)
qed

lemma linear_scan_Inl:
  "linear_scan ws t = Inl e \<Longrightarrow> e = ValueError \<and> (\<forall>c \<in> set ws. c = None)"
  using scan_none_None [of ws t 0]
  by (auto simp: linear_scan_def split: option.splits)

section \<open>Properties of the gamma scaling\<close>

lemma gamma_exponent_nan: "nanmean a = None \<Longrightarrow> gamma_exponent a = Inr None"
  by (simp add: gamma_exponent_def math_log_def py_truediv_def)

lemma gamma_exponent_nonpos: "nanmean a = Some m \<Longrightarrow> m \<le> 0 \<Longrightarrow> gamma_exponent a = Inl ValueError"
  by (simp add: gamma_exponent_def math_log_def)

lemma gamma_exponent_one: "nanmean a = Some 1 \<Longrightarrow> gamma_exponent a = Inl ZeroDivisionError"
  by (simp add: gamma_exponent_def math_log_def py_truediv_def)

lemma gamma_exponent_ok:
  "nanmean a = Some m \<Longrightarrow> 0 < m \<Longrightarrow> m \<noteq> 1 \<Longrightarrow> gamma_exponent a = Inr (Some (ln (1 / 5) / ln m))"
  by (simp add: gamma_exponent_def math_log_def py_truediv_def)

lemma gamma_adjust_eq:
  "getitem ds ''reflectance'' = Inr r \<Longrightarrow> isel r ''bands'' band = Inr v \<Longrightarrow>
   gamma_adjust ds band =
     (case gamma_exponent (arr v) of
        Inl e \<Rightarrow> Inl e
      | Inr g \<Rightarrow> Inr \<lparr>shape = shape (arr v), cells = map (scale_cell g) (cells (arr v))\<rparr>)"
  by (simp add: gamma_adjust_def Let_def)

lemma scale_cell_range: "\<exists>v. scale_cell g x = Some v \<and> 0 \<le> v \<and> v \<le> 1"
  by (cases "np_power x g") (auto simp: scale_cell_def clip_def nan_to_num_def)

lemma powr_gamma:
  assumes "0 < m" "m \<noteq> 1"
  shows "m powr (ln (1 / 5) / ln m) = 1 / (5 :: real)"
proof -
  from assms have "ln m \<noteq> 0" by simp
  then have "ln (1 / 5) / ln m * ln m = ln (1 / 5)" by simp
  with assms show ?thesis by (simp add: powr_def)
qed

lemma scale_cell_mean:
  assumes "0 < m" "m \<noteq> 1"
  shows "scale_cell (Some (ln (1 / 5) / ln m)) (Some m) = Some (1 / 5)"
proof -
  from assms have "ln m \<noteq> 0" by simp
  then have "ln (1 / 5) / ln m \<noteq> 0" by simp
  then have "np_power (Some m) (Some (ln (1 / 5) / ln m)) = Fin (m powr (ln (1 / 5) / ln m))"
    using assms by (simp add: np_power_def)
  then show ?thesis using powr_gamma [OF assms] by (simp add: scale_cell_def clip_def nan_to_num_def)
qed


section \<open>Properties of the dataset operations\<close>

lemma take_axis_mask_sentinel:
  "take_axis (mask_sentinel a) ax i = mask_sentinel (take_axis a ax i)"
  by (rule ndarray.equality)
     (simp_all add: take_axis_def Let_def shape_mask_sentinel cells_mask_sentinel
        map_concat take_map drop_map comp_def)

lemma count_missing_mask_sentinel:
  "count_missing (mask_sentinel a) = count_sentinel a + count_missing a"
  unfolding count_missing_def count_sentinel_def cells_mask_sentinel
  by (rule count_none_masked)

lemma da_where_self:
  "da_where bcast r (da_ne r sentinel) = \<lparr>dims = dims r, arr = mask_sentinel (arr r)\<rparr>"
  by (simp add: da_where_def da_ne_def ne_scalar_def mask_sentinel_def)

lemma map_fst_dict_set:
  "map_of kvs k = Some v' \<Longrightarrow> map fst (dict_set kvs k v) = map fst kvs"
  by (induction kvs) (auto split: if_splits)

lemma map_of_dict_set:
  "map_of (dict_set kvs k v) n = (if n = k then Some v else map_of kvs n)"
  by (induction kvs) auto

lemma map_of_map_snd:
  "map_of (map (\<lambda>(n, v). (n, f v)) kvs) n = map_option f (map_of kvs n)"
  by (induction kvs) auto

lemma map_fst_map_snd: "map fst (map (\<lambda>(n, v). (n, f v)) kvs) = map fst kvs"
  by (induction kvs) auto

lemma getitem_data_var:
  "map_of (data_vars ds) n = Some v \<Longrightarrow> getitem ds n = Inr v"
  by (simp add: getitem_def map_add_def split: option.splits)

lemma mask_reflectance_eq:
  assumes "map_of (data_vars ds) ''reflectance'' = Some r"
    and "''reflectance'' \<notin> fst ` set (coords ds)"
  shows "mask_reflectance bcast ds =
     Inr (ds\<lparr>data_vars := dict_set (data_vars ds) ''reflectance''
                \<lparr>dims = dims r, arr = mask_sentinel (arr r)\<rparr>\<rparr>)"
  using assms
  by (simp add: mask_reflectance_def getitem_data_var setitem_def da_where_self)

lemma mask_dataset_eq:
  assumes "map_of (data_vars ds) ''reflectance'' = Some r"
  shows "mask_dataset bcast ds =
     Inr (ds\<lparr>data_vars := map (\<lambda>(n, v). (n, da_where bcast v (da_ne r sentinel))) (data_vars ds)\<rparr>)"
  using assms
  by (simp add: mask_dataset_def getitem_data_var dataset_where_def)

lemma nth_mask_sentinel:
  "k < length (cells a) \<Longrightarrow>
   cells (mask_sentinel a) ! k = (if cells a ! k = Some sentinel then None else cells a ! k)"
  by (simp add: cells_mask_sentinel)

lemma nth_where_values:
  "k < length (cells a) \<Longrightarrow> k < length (cells b) \<Longrightarrow>
   cells (where_values a (ne_scalar b s)) ! k =
     (if cells b ! k = Some s then None else cells a ! k)"
  by (simp add: where_values_def ne_scalar_def where_cell_def)

lemma da_where_same_shape:
  "dims v = dims r \<Longrightarrow> shape (arr v) = shape (arr r) \<Longrightarrow>
   da_where bcast v (da_ne r s) = \<lparr>dims = dims v, arr = where_values (arr v) (ne_scalar (arr r) s)\<rparr>"
  by (simp add: da_where_def da_ne_def ne_scalar_def)

section \<open>Properties of gamma_adjust\<close>

lemma gamma_exponent_Some:
  assumes "nanmean a = Some m" and "gamma_exponent a = Inr (Some g)"
  shows "0 < m \<and> m \<noteq> 1 \<and> g = ln (1 / 5) / ln m"
  using assms
  by (auto simp: gamma_exponent_def math_log_def py_truediv_def split: if_splits)

lemma gamma_adjust_Inr:
  assumes "getitem ds ''reflectance'' = Inr r" and "isel r ''bands'' band = Inr v"
    and "gamma_exponent (arr v) = Inr g"
  shows "gamma_adjust ds band = Inr \<lparr>shape = shape (arr v), cells = map (scale_cell g) (cells (arr v))\<rparr>"
  using assms by (simp add: gamma_adjust_eq)

lemma valid_values_Nil: "valid_values cs = [] \<longleftrightarrow> (\<forall>c \<in> set cs. c = None)"
  by (induction cs rule: valid_values.induct) auto

text \<open>
  A band with no valid cell has the mean NaN: nothing raises, the exponent is NaN, and
  every cell of the result is 1.
\<close>

lemma gamma_adjust_all_missing:
  assumes "getitem ds ''reflectance'' = Inr r" and "isel r ''bands'' band = Inr v"
    and "nanmean (arr v) = None"
  shows "gamma_adjust ds band =
     Inr \<lparr>shape = shape (arr v), cells = replicate (length (cells (arr v))) (Some 1)\<rparr>"
proof -
  from assms(3) have "valid_values (cells (arr v)) = []"
    by (simp add: nanmean_def Let_def split: if_splits)
  then have n: "\<forall>c \<in> set (cells (arr v)). c = None" by (simp add: valid_values_Nil)
  have "scale_cell None None = Some 1"
    by (simp add: scale_cell_def np_power_def clip_def nan_to_num_def)
  with n have "map (scale_cell None) (cells (arr v)) = replicate (length (cells (arr v))) (Some 1)"
    by (auto simp: map_replicate_const [symmetric])
  then show ?thesis
    using gamma_adjust_Inr [OF assms(1,2) gamma_exponent_nan [OF assms(3)]] by simp
qed

lemma gamma_adjust_cells:
  "gamma_adjust ds band = Inr out \<Longrightarrow> \<forall>c \<in> set (cells out). \<exists>x. c = Some x \<and> 0 \<le> x \<and> x \<le> 1"
  using scale_cell_range
  by (fastforce simp: gamma_adjust_def Let_def split: sum.splits)

section \<open>Properties of the run\<close>

lemma run_cells_Inl_iff:
  "run_cells cs s = Inl f \<longleftrightarrow>
     (\<exists>i<length cs. \<exists>s'. run_cells (take i cs) s = Inr s' \<and> (cs ! i) s' = Inl f)"
proof (induction cs arbitrary: s)
  case Nil
  then show ?case by simp
next
  case (Cons c cs)
  show ?case
  proof (cases "c s")
    case (Inl f')
    have "(\<exists>i<length (c # cs). \<exists>s'. run_cells (take i (c # cs)) s = Inr s' \<and> ((c # cs) ! i) s' = Inl f)
      \<longleftrightarrow> f' = f"
    proof
      assume "\<exists>i<length (c # cs). \<exists>s'. run_cells (take i (c # cs)) s = Inr s' \<and> ((c # cs) ! i) s' = Inl f"
      then obtain i s' where i: "i < length (c # cs)" "run_cells (take i (c # cs)) s = Inr s'"
        "((c # cs) ! i) s' = Inl f" by blast
      show "f' = f"
      proof (cases i)
        case 0
        with i Inl show ?thesis by simp
      next
        case (Suc j)
        with i Inl show ?thesis by simp
      qed
    next
      assume "f' = f"
      with Inl have "run_cells (take 0 (c # cs)) s = Inr s \<and> ((c # cs) ! 0) s = Inl f" by simp
      then show "\<exists>i<length (c # cs). \<exists>s'. run_cells (take i (c # cs)) s = Inr s' \<and> ((c # cs) ! i) s' = Inl f"
        by (intro exI [of _ 0]) auto
    qed
    with Inl show ?thesis by simp
  next
    case (Inr s1)
    have "(\<exists>i<length (c # cs). \<exists>s'. run_cells (take i (c # cs)) s = Inr s' \<and> ((c # cs) ! i) s' = Inl f)
      \<longleftrightarrow> (\<exists>i<length cs. \<exists>s'. run_cells (take i cs) s1 = Inr s' \<and> (cs ! i) s' = Inl f)"
    proof
      assume "\<exists>i<length (c # cs). \<exists>s'. run_cells (take i (c # cs)) s = Inr s' \<and> ((c # cs) ! i) s' = Inl f"
      then obtain i s' where i: "i < length (c # cs)" "run_cells (take i (c # cs)) s = Inr s'"
        "((c # cs) ! i) s' = Inl f" by blast
      show "\<exists>i<length cs. \<exists>s'. run_cells (take i cs) s1 = Inr s' \<and> (cs ! i) s' = Inl f"
      proof (cases i)
        case 0
        with i Inr show ?thesis by simp
      next
        case (Suc j)
        with i Inr have "j < length cs" "run_cells (take j cs) s1 = Inr s'" "(cs ! j) s' = Inl f"
          by simp_all
        then show ?thesis by blast
      qed
    next
      assume "\<exists>i<length cs. \<exists>s'. run_cells (take i cs) s1 = Inr s' \<and> (cs ! i) s' = Inl f"
      then obtain j s' where j: "j < length cs" "run_cells (take j cs) s1 = Inr s'" "(cs ! j) s' = Inl f"
        by blast
      with Inr have "Suc j < length (c # cs) \<and> run_cells (take (Suc j) (c # cs)) s = Inr s' \<and>
        ((c # cs) ! Suc j) s' = Inl f" by simp
      then show "\<exists>i<length (c # cs). \<exists>s'. run_cells (take i (c # cs)) s = Inr s' \<and> ((c # cs) ! i) s' = Inl f"
        by blast
    qed
    with Inr Cons.IH [of s1] show ?thesis by simp
  qed
qed

lemma notebook_bound: "notebook lib fp \<noteq> Inl (Unbound n)"
  unfolding notebook_def notebook_cells_def empty_namespace_def
  by (simp add: cell_setup_def cell_nc_open_def cell_nc_groups_def cell_open_refl_def
      cell_open_wvl_def cell_merge_def cell_spectrum_def cell_mask_def cell_del_def
      cell_band_image_def cell_open_loc_def cell_apply_glt_def cell_geo_image_def
      cell_geo_mask_def cell_geo_spectrum_def geo_spectrum_def cell_nearest_bands_def
      cell_rgb_def cell_map_def cell_linked_def py_call_def py_name_def
      split: sum.splits)

lemma gamma_adjust_Inl_iff:
  "gamma_adjust ds band = Inl e \<longleftrightarrow>
     getitem ds ''reflectance'' = Inl e \<or>
     (\<exists>r. getitem ds ''reflectance'' = Inr r \<and>
        (isel r ''bands'' band = Inl e \<or>
         (\<exists>v. isel r ''bands'' band = Inr v \<and>
            (math_log (nanmean (arr v)) = Inl e \<or>
             (\<exists>den. math_log (nanmean (arr v)) = Inr den \<and>
                py_truediv (Some (ln (1 / 5))) den = Inl e)))))"
  by (auto simp: gamma_adjust_def gamma_exponent_def math_log_def Let_def split: sum.splits)

lemma cell_setup_fails:
  "cell_setup lib s = Inl f \<longleftrightarrow>
     raises (gv_extension lib ''bokeh'') f"
  by (auto simp: cell_setup_def py_call_def py_name_def raises_def split: sum.splits option.splits)

lemma cell_nc_open_fails:
  "cell_nc_open lib fp s = Inl f \<longleftrightarrow>
     raises (nc_Dataset lib fp) f"
  by (auto simp: cell_nc_open_def py_call_def py_name_def raises_def split: sum.splits option.splits)

lemma cell_nc_groups_fails:
  "cell_nc_groups lib s = Inl f \<longleftrightarrow>
     (v_nc s = None \<and> f = Unbound ''ds'') \<or>
      (\<exists>h. v_nc s = Some h \<and>
        (raises (nc_groups lib h) f))"
  by (auto simp: cell_nc_groups_def py_call_def py_name_def raises_def split: sum.splits option.splits)

lemma cell_open_refl_fails:
  "cell_open_refl lib fp s = Inl f \<longleftrightarrow>
     raises (open_dataset lib fp None) f"
  by (auto simp: cell_open_refl_def py_call_def py_name_def raises_def split: sum.splits option.splits)

lemma cell_open_wvl_fails:
  "cell_open_wvl lib fp s = Inl f \<longleftrightarrow>
     raises (open_dataset lib fp (Some ''sensor_band_parameters'')) f"
  by (auto simp: cell_open_wvl_def py_call_def py_name_def raises_def split: sum.splits option.splits)

lemma cell_merge_fails:
  "cell_merge lib s = Inl f \<longleftrightarrow>
     (v_refl s = None \<and> f = Unbound ''refl'') \<or>
      (\<exists>r. v_refl s = Some r \<and>
        ((v_wvl s = None \<and> f = Unbound ''wvl'') \<or>
        (\<exists>w. v_wvl s = Some w \<and>
          (raises (xr_merge lib [r, w]) f))))"
  by (auto simp: cell_merge_def py_call_def py_name_def raises_def split: sum.splits option.splits)

lemma cell_spectrum_fails:
  "cell_spectrum lib x s = Inl f \<longleftrightarrow>
     (v_ds s = None \<and> f = Unbound ''ds'') \<or>
      (\<exists>d. v_ds s = Some d \<and>
        (raises (ds_isel lib d [(''downtrack'', 660), (''crosstrack'', 370)]) f \<or>
        (\<exists>sel. ds_isel lib d [(''downtrack'', 660), (''crosstrack'', 370)] = Inr sel \<and>
          (raises (hvplot lib sel (Line ''reflectance'' x ''black'')) f))))"
  by (auto simp: cell_spectrum_def py_call_def py_name_def raises_def split: sum.splits option.splits)

lemma cell_mask_fails:
  "cell_mask lib s = Inl f \<longleftrightarrow>
     (v_ds s = None \<and> f = Unbound ''ds'') \<or>
      (\<exists>d. v_ds s = Some d \<and>
        (raises (mask_reflectance (broadcast lib) d) f))"
  by (auto simp: cell_mask_def py_call_def py_name_def raises_def split: sum.splits option.splits)

lemma cell_del_fails:
  "cell_del s = Inl f \<longleftrightarrow>
     (v_refl s = None \<and> f = Unbound ''refl'') \<or>
      (\<exists>r. v_refl s = Some r \<and>
        (v_wvl s = None \<and> f = Unbound ''wvl''))"
  by (auto simp: cell_del_def py_call_def py_name_def raises_def split: sum.splits option.splits)

lemma cell_band_image_fails:
  "cell_band_image lib s = Inl f \<longleftrightarrow>
     (v_ds s = None \<and> f = Unbound ''ds'') \<or>
      (\<exists>d. v_ds s = Some d \<and>
        (raises (nearest_band d 650) f \<or>
        (\<exists>b. nearest_band d 650 = Inr b \<and>
          (raises (ds_isel lib d [(''bands'', int b)]) f \<or>
          (\<exists>sel. ds_isel lib d [(''bands'', int b)] = Inr sel \<and>
            (raises (hvplot lib sel Image) f))))))"
  by (auto simp: cell_band_image_def py_call_def py_name_def raises_def split: sum.splits option.splits)

lemma cell_open_loc_fails:
  "cell_open_loc lib fp s = Inl f \<longleftrightarrow>
     raises (open_dataset lib fp (Some ''location'')) f"
  by (auto simp: cell_open_loc_def py_call_def py_name_def raises_def split: sum.splits option.splits)

lemma cell_apply_glt_fails:
  "cell_apply_glt lib fp s = Inl f \<longleftrightarrow>
     raises (apply_gltx lib fp) f"
  by (auto simp: cell_apply_glt_def py_call_def py_name_def raises_def split: sum.splits option.splits)

lemma cell_geo_image_fails:
  "cell_geo_image lib s = Inl f \<longleftrightarrow>
     (v_ds_geo s = None \<and> f = Unbound ''ds_geo'') \<or>
      (\<exists>d. v_ds_geo s = Some d \<and>
        ((v_b650 s = None \<and> f = Unbound ''b650'') \<or>
        (\<exists>b. v_b650 s = Some b \<and>
          (raises (ds_isel lib d [(''bands'', int b)]) f \<or>
          (\<exists>sel. ds_isel lib d [(''bands'', int b)] = Inr sel \<and>
            (raises (hvplot lib sel Image) f))))))"
  by (auto simp: cell_geo_image_def py_call_def py_name_def raises_def split: sum.splits option.splits)

lemma cell_geo_mask_fails:
  "cell_geo_mask lib s = Inl f \<longleftrightarrow>
     (v_ds_geo s = None \<and> f = Unbound ''ds_geo'') \<or>
      (\<exists>d. v_ds_geo s = Some d \<and>
        (raises (mask_dataset (broadcast lib) d) f))"
  by (auto simp: cell_geo_mask_def py_call_def py_name_def raises_def split: sum.splits option.splits)

lemma cell_geo_spectrum_fails:
  "cell_geo_spectrum lib s = Inl f \<longleftrightarrow>
     geo_spectrum lib s ''black'' (- (61833 / 1000)) (- (3971 / 100)) = Inl f"
  by (auto simp: cell_geo_spectrum_def py_call_def py_name_def raises_def split: sum.splits option.splits)

lemma cell_nearest_bands_fails:
  "cell_nearest_bands s = Inl f \<longleftrightarrow>
     (v_ds_geo s = None \<and> f = Unbound ''ds_geo'') \<or>
      (\<exists>d. v_ds_geo s = Some d \<and>
        (raises (nearest_band d 650) f \<or>
        (\<exists>r. nearest_band d 650 = Inr r \<and>
          (raises (nearest_band d 560) f \<or>
          (\<exists>g. nearest_band d 560 = Inr g \<and>
            (raises (nearest_band d 470) f))))))"
  by (auto simp: cell_nearest_bands_def py_call_def py_name_def raises_def split: sum.splits option.splits)

lemma cell_rgb_fails:
  "cell_rgb lib s = Inl f \<longleftrightarrow>
     (v_ds_geo s = None \<and> f = Unbound ''ds_geo'') \<or>
      (\<exists>d. v_ds_geo s = Some d \<and>
        ((v_b650 s = None \<and> f = Unbound ''b650'') \<or>
        (\<exists>b650. v_b650 s = Some b650 \<and>
          (raises (gamma_adjust d (int b650)) f \<or>
          (\<exists>r. gamma_adjust d (int b650) = Inr r \<and>
            ((v_b560 s = None \<and> f = Unbound ''b560'') \<or>
            (\<exists>b560. v_b560 s = Some b560 \<and>
              (raises (gamma_adjust d (int b560)) f \<or>
              (\<exists>g. gamma_adjust d (int b560) = Inr g \<and>
                ((v_b470 s = None \<and> f = Unbound ''b470'') \<or>
                (\<exists>b470. v_b470 s = Some b470 \<and>
                  (raises (gamma_adjust d (int b470)) f \<or>
                  (\<exists>b. gamma_adjust d (int b470) = Inr b \<and>
                    (raises (np_stack [r, g, b]) f \<or>
                    (\<exists>rgb. np_stack [r, g, b] = Inr rgb \<and>
                      (raises (getitem d ''Longitude'') f \<or>
                      (\<exists>x. getitem d ''Longitude'' = Inr x \<and>
                        (raises (getitem d ''Latitude'') f \<or>
                        (\<exists>y. getitem d ''Latitude'' = Inr y \<and>
                          (raises (xr_Dataset lib
           [(''RGB'', \<lparr>dims = [''bands'', ''Latitude'', ''Longitude''], arr = rgb\<rparr>)]
           [(''bands'', \<lparr>dims = [''bands''], arr = \<lparr>shape = [3], cells = [Some 0, Some 1, Some 2]\<rparr>\<rparr>),
            (''Latitude'', \<lparr>dims = [''Latitude''], arr = arr y\<rparr>),
            (''Longitude'', \<lparr>dims = [''Longitude''], arr = arr x\<rparr>)]
           (attrs d)) f))))))))))))))))))))"
  by (auto simp: cell_rgb_def py_call_def py_name_def raises_def split: sum.splits option.splits)

lemma cell_map_fails:
  "cell_map lib s = Inl f \<longleftrightarrow>
     (v_ds_rgb s = None \<and> f = Unbound ''ds_rgb'') \<or>
      (\<exists>d. v_ds_rgb s = Some d \<and>
        (raises (hvplot lib d Rgb) f))"
  by (auto simp: cell_map_def py_call_def py_name_def raises_def split: sum.splits option.splits)

lemma cell_linked_fails:
  "cell_linked lib s = Inl f \<longleftrightarrow>
     raises (display_html lib ''<style>div.output_scroll { height: 44em; }</style>'') f \<or>
      (\<exists>u. display_html lib ''<style>div.output_scroll { height: 44em; }</style>'' = Inr u \<and>
        ((v_map s = None \<and> f = Unbound ''map'') \<or>
        (\<exists>m. v_map s = Some m \<and>
          (raises (linked_view lib m (geo_spectrum lib s ''#1b9e77'') (geo_spectrum lib s ''#d95f02'')) f))))"
  by (auto simp: cell_linked_def py_call_def py_name_def raises_def split: sum.splits option.splits)

lemma geo_spectrum_fails:
  "geo_spectrum lib s c x y = Inl f \<longleftrightarrow>
     (v_ds_geo s = None \<and> f = Unbound ''ds_geo'') \<or>
      (\<exists>d. v_ds_geo s = Some d \<and>
        (raises (ds_sel_nearest lib d [(''Longitude'', x), (''Latitude'', y)]) f \<or>
        (\<exists>sel. ds_sel_nearest lib d [(''Longitude'', x), (''Latitude'', y)] = Inr sel \<and>
          (raises (hvplot lib sel (Line ''reflectance'' ''wavelengths'' c)) f))))"
  by (auto simp: geo_spectrum_def py_call_def py_name_def raises_def split: sum.splits option.splits)

lemma mask_reflectance_Inl_iff:
  "mask_reflectance bcast d = Inl e \<longleftrightarrow> getitem d ''reflectance'' = Inl e"
  by (auto simp: mask_reflectance_def split: sum.splits)

lemma mask_dataset_Inl_iff:
  "mask_dataset bcast d = Inl e \<longleftrightarrow> getitem d ''reflectance'' = Inl e"
  by (auto simp: mask_dataset_def split: sum.splits)

lemma nearest_band_Inl_iff:
  "nearest_band d t = Inl e \<longleftrightarrow>
     getitem d ''wavelengths'' = Inl e \<or>
     (\<exists>w. getitem d ''wavelengths'' = Inr w \<and> nanargmin (np_abs (sub_scalar (arr w) t)) = Inl e)"
  by (auto simp: nearest_band_def nearest_lookup_def split: sum.splits)

lemma notebook_cells_nth:
  "notebook_cells lib fp ! 0 = cell_setup lib"
  "notebook_cells lib fp ! 1 = cell_nc_open lib fp"
  "notebook_cells lib fp ! 2 = cell_nc_groups lib"
  "notebook_cells lib fp ! 3 = cell_open_refl lib fp"
  "notebook_cells lib fp ! 4 = cell_open_wvl lib fp"
  "notebook_cells lib fp ! 5 = cell_merge lib"
  "notebook_cells lib fp ! 6 = cell_spectrum lib ''bands''"
  "notebook_cells lib fp ! 7 = cell_mask lib"
  "notebook_cells lib fp ! 8 = cell_del"
  "notebook_cells lib fp ! 9 = cell_spectrum lib ''wavelengths''"
  "notebook_cells lib fp ! 10 = cell_band_image lib"
  "notebook_cells lib fp ! 11 = cell_open_loc lib fp"
  "notebook_cells lib fp ! 12 = cell_apply_glt lib fp"
  "notebook_cells lib fp ! 13 = cell_geo_image lib"
  "notebook_cells lib fp ! 14 = cell_geo_mask lib"
  "notebook_cells lib fp ! 15 = cell_geo_spectrum lib"
  "notebook_cells lib fp ! 16 = cell_nearest_bands"
  "notebook_cells lib fp ! 17 = cell_rgb lib"
  "notebook_cells lib fp ! 18 = cell_map lib"
  "notebook_cells lib fp ! 19 = cell_linked lib"
  "length (notebook_cells lib fp) = 20"
  by (simp_all add: notebook_cells_def)


section \<open>The example data evaluated\<close>

lemma ex_mask_reflectance: "map_of (data_vars ex_mask) ''reflectance'' = Some ex_refl"
  by (simp add: ex_mask_def)

lemma ex_mask_not_coord: "''reflectance'' \<notin> fst ` set (coords ex_mask)"
  by (simp add: ex_mask_def)

lemma mask_reflectance_ex_mask: "mask_reflectance (\<lambda>v _. v) ex_mask = Inr ex_masked"
  by (simp add: mask_reflectance_eq [OF ex_mask_reflectance ex_mask_not_coord])
     (simp add: ex_masked_def ex_refl_masked_def ex_mask_def ex_refl_def mask_sentinel_def where_values_def
        ne_scalar_def where_cell_def sentinel_def)

lemma mask_dataset_ex_mask: "mask_dataset (\<lambda>v _. v) ex_mask = Inr ex_masked"
  by (simp add: mask_dataset_eq [OF ex_mask_reflectance])
     (simp add: ex_masked_def ex_refl_masked_def ex_mask_def ex_refl_def da_where_def da_ne_def where_values_def
        ne_scalar_def where_cell_def sentinel_def)

lemma nearest_ex_masked: "nearest_band ex_masked 650 = Inr 2"
  by (simp add: nearest_band_def getitem_def ex_masked_def ex_mask_def ex_wavelengths_def
      nearest_lookup_scan linear_scan_def)

lemma getitem_grid: "getitem (grid sh cs) ''reflectance'' = Inr (grid_refl sh cs)"
  by (simp add: grid_def getitem_def)

lemma isel_means_0:
  "isel (grid_refl [1, 3, 3] ex_means_cells) ''bands'' 0 =
     Inr (band_slice [1, 3] [Some (1 / 4), Some (1 / 2), Some (3 / 4)])"
  by (simp add: isel_def take_axis_def upt_rec grid_refl_def band_slice_def ex_means_cells_def)

lemma isel_means_1:
  "isel (grid_refl [1, 3, 3] ex_means_cells) ''bands'' 1 =
     Inr (band_slice [1, 3] [Some (1 / 2), Some 1, Some (3 / 2)])"
  by (simp add: isel_def take_axis_def upt_rec grid_refl_def band_slice_def ex_means_cells_def)

lemma isel_means_2:
  "isel (grid_refl [1, 3, 3] ex_means_cells) ''bands'' 2 =
     Inr (band_slice [1, 3] [Some (- (1 / 2)), Some (1 / 4), None])"
  by (simp add: isel_def take_axis_def upt_rec grid_refl_def band_slice_def ex_means_cells_def)



lemma isel_rgb_0:
  "isel (grid_refl [1, 2, 3] ex_rgb_cells) ''bands'' 0 =
     Inr (band_slice [1, 2] [Some (1 / 5), None])"
  by (simp add: isel_def take_axis_def upt_rec grid_refl_def band_slice_def ex_rgb_cells_def)

lemma isel_rgb_1:
  "isel (grid_refl [1, 2, 3] ex_rgb_cells) ''bands'' 1 =
     Inr (band_slice [1, 2] [Some (1 / 5), Some (1 / 5)])"
  by (simp add: isel_def take_axis_def upt_rec grid_refl_def band_slice_def ex_rgb_cells_def)

lemma isel_rgb_2:
  "isel (grid_refl [1, 2, 3] ex_rgb_cells) ''bands'' 2 =
     Inr (band_slice [1, 2] [Some (1 / 5), None])"
  by (simp add: isel_def take_axis_def upt_rec grid_refl_def band_slice_def ex_rgb_cells_def)

lemma nanmean_band_slice:
  "nanmean (arr (band_slice sh cs)) =
     (if valid_values cs = [] then None
      else Some (sum_list (valid_values cs) / real (length (valid_values cs))))"
  by (simp add: nanmean_def band_slice_def Let_def)

lemma cells_band_slice: "cells (arr (band_slice sh cs)) = cs"
  by (simp add: band_slice_def)

lemma mask_reflectance_ex_two:
  "mask_reflectance (\<lambda>v _. v) ex_two =
     Inr (ex_two\<lparr>data_vars := [(''reflectance'', ex_refl_masked), (''other'', ex_other)]\<rparr>)"
  by (simp add: ex_two_def ex_mask_def ex_refl_def ex_refl_masked_def mask_reflectance_def
      getitem_def setitem_def da_where_def da_ne_def where_values_def ne_scalar_def where_cell_def
      sentinel_def)

lemma mask_dataset_ex_two:
  "mask_dataset (\<lambda>v _. v) ex_two =
     Inr (ex_two\<lparr>data_vars := [(''reflectance'', ex_refl_masked), (''other'', ex_other_masked)]\<rparr>)"
  by (simp add: ex_two_def ex_mask_def ex_refl_def ex_other_def ex_refl_masked_def
      ex_other_masked_def mask_dataset_def getitem_def dataset_where_def da_where_def da_ne_def
      where_values_def ne_scalar_def where_cell_def sentinel_def)

lemma ex_two_reflectance: "map_of (data_vars ex_two) ''reflectance'' = Some ex_refl"
  by (simp add: ex_two_def)

lemma ex_two_not_coord: "''reflectance'' \<notin> fst ` set (coords ex_two)"
  by (simp add: ex_two_def ex_mask_def)

lemma isel_masked_1: "isel ex_refl_masked ''bands'' 1 = Inr (band_slice [1, 1] [None])"
  by (simp add: isel_def take_axis_def upt_rec ex_refl_def ex_refl_masked_def band_slice_def)

lemma getitem_ex_masked: "getitem ex_masked ''reflectance'' = Inr ex_refl_masked"
  by (simp add: getitem_def ex_masked_def ex_mask_def ex_refl_masked_def)

lemma nanmean_masked_1: "nanmean (arr (band_slice [1, 1] [None])) = None"
  by (simp add: nanmean_band_slice)






lemma gamma_rgb:
  "gamma_exponent (arr (band_slice [1, 2] [Some (1 / 5), None])) = Inr (Some 1)"
  "gamma_exponent (arr (band_slice [1, 2] [Some (1 / 5), Some (1 / 5)])) = Inr (Some 1)"
  by (simp_all add: gamma_exponent_def nanmean_band_slice math_log_def py_truediv_def)

lemma gamma_adjust_rgb:
  "gamma_adjust ex_rgb 0 = Inr \<lparr>shape = [1, 2], cells = [Some (1 / 5), Some 1]\<rparr>"
  "gamma_adjust ex_rgb 1 = Inr \<lparr>shape = [1, 2], cells = [Some (1 / 5), Some (1 / 5)]\<rparr>"
  "gamma_adjust ex_rgb 2 = Inr \<lparr>shape = [1, 2], cells = [Some (1 / 5), Some 1]\<rparr>"
proof -
  have h: "getitem ex_rgb ''reflectance'' = Inr (grid_refl [1, 2, 3] ex_rgb_cells)"
    unfolding ex_rgb_def by (rule getitem_grid)
  show "gamma_adjust ex_rgb 0 = Inr \<lparr>shape = [1, 2], cells = [Some (1 / 5), Some 1]\<rparr>"
    unfolding gamma_adjust_Inr [OF h isel_rgb_0 gamma_rgb(1)]
    by (simp add: band_slice_def scale_cell_def np_power_def clip_def nan_to_num_def)
  show "gamma_adjust ex_rgb 1 = Inr \<lparr>shape = [1, 2], cells = [Some (1 / 5), Some (1 / 5)]\<rparr>"
    unfolding gamma_adjust_Inr [OF h isel_rgb_1 gamma_rgb(2)]
    by (simp add: band_slice_def scale_cell_def np_power_def clip_def nan_to_num_def)
  show "gamma_adjust ex_rgb 2 = Inr \<lparr>shape = [1, 2], cells = [Some (1 / 5), Some 1]\<rparr>"
    unfolding gamma_adjust_Inr [OF h isel_rgb_2 gamma_rgb(1)]
    by (simp add: band_slice_def scale_cell_def np_power_def clip_def nan_to_num_def)
qed

lemma gamma_adjust_same_reflectance:
  "getitem ds ''reflectance'' = getitem ds' ''reflectance'' \<Longrightarrow>
   gamma_adjust ds band = gamma_adjust ds' band"
  by (simp add: gamma_adjust_def)

lemma getitem_ex_geo: "getitem ex_geo ''reflectance'' = getitem ex_rgb ''reflectance''"
  by (simp add: ex_geo_def ex_rgb_def grid_def getitem_def)

lemma mask_dataset_ex_geo: "mask_dataset (\<lambda>v _. v) ex_geo = Inr ex_geo"
  by (simp add: mask_dataset_def getitem_def dataset_where_def da_where_def da_ne_def
      where_values_def ne_scalar_def where_cell_def ex_geo_def grid_refl_def ex_rgb_cells_def
      sentinel_def)

lemma nearest_ex_geo:
  "nearest_band ex_geo 650 = Inr 2" "nearest_band ex_geo 560 = Inr 1" "nearest_band ex_geo 470 = Inr 0"
  by (simp_all add: nearest_band_def getitem_def ex_geo_def ex_wavelengths_def
      nearest_lookup_scan linear_scan_def)

lemma getitem_ex_geo_coords:
  "\<exists>x. getitem ex_geo ''Longitude'' = Inr x" "\<exists>y. getitem ex_geo ''Latitude'' = Inr y"
  by (simp_all add: getitem_def ex_geo_def)

lemma notebook_runs:
  "\<exists>s. notebook ex_library_ok ''scene.nc'' = Inr s \<and> length (shown s) = 6"
  unfolding notebook_def notebook_cells_def empty_namespace_def ex_library_ok_def ex_library_def
  by (simp add: cell_setup_def cell_nc_open_def cell_nc_groups_def cell_open_refl_def
      cell_open_wvl_def cell_merge_def cell_spectrum_def cell_mask_def cell_del_def
      cell_band_image_def cell_open_loc_def cell_apply_glt_def cell_geo_image_def
      cell_geo_mask_def cell_geo_spectrum_def geo_spectrum_def cell_nearest_bands_def
      cell_rgb_def cell_map_def cell_linked_def py_call_def py_name_def
      mask_reflectance_ex_mask nearest_ex_masked mask_dataset_ex_geo nearest_ex_geo
      gamma_adjust_same_reflectance [OF getitem_ex_geo] gamma_adjust_rgb np_stack_def
      split: sum.splits)
     (use getitem_ex_geo_coords in auto)

section \<open>The claims\<close>

text \<open>
  Claim C1. For every array of band wavelengths and every target wavelength (650, 560
  and 470 nm among them), the lookup \<^verbatim>\<open>np.nanargmin(abs(wavelengths - target))\<close> gives
  the result of a linear scan for the minimising index: when it returns band \<open>k\<close>, the
  wavelength of \<open>k\<close> is present, no present wavelength is nearer to the target, and every
  earlier band is strictly farther. It raises, as the scan finds nothing, only with
  ValueError and only when no wavelength is present.
\<close>

theorem nearest_lookup_minimises:
  "nearest_lookup a t = linear_scan (cells a) t \<and>
   (\<forall>k. nearest_lookup a t = Inr k \<longrightarrow> (\<exists>d. first_nearest (cells a) t k d)) \<and>
   (\<forall>e. nearest_lookup a t = Inl e \<longrightarrow> e = ValueError \<and> (\<forall>c \<in> set (cells a). c = None))"
proof (intro conjI allI impI)
  show eq: "nearest_lookup a t = linear_scan (cells a) t" by (rule nearest_lookup_scan)
  fix k assume "nearest_lookup a t = Inr k"
  with eq have "linear_scan (cells a) t = Inr k" by simp
  then show "\<exists>d. first_nearest (cells a) t k d" by (rule linear_scan_Inr)
next
  fix e assume "nearest_lookup a t = Inl e"
  then have *: "linear_scan (cells a) t = Inl e" by (simp add: nearest_lookup_scan)
  from linear_scan_Inl [OF *] show "e = ValueError" by simp
  from linear_scan_Inl [OF *] show "\<forall>c \<in> set (cells a). c = None" by simp
qed

theorem nearest_lookup_minimises_witness:
  "nearest_lookup \<lparr>shape = [4], cells = [Some 640, None, Some 655, Some 645]\<rparr> 650 = Inr 2 \<and>
   (\<exists>d. first_nearest [Some 640, None, Some 655, Some 645] 650 2 d) \<and>
   nearest_lookup \<lparr>shape = [2], cells = [None, None]\<rparr> 560 = Inl ValueError"
proof -
  let ?a = "\<lparr>shape = [4], cells = [Some 640, None, Some 655, Some (645::real)]\<rparr>"
  let ?b = "\<lparr>shape = [2], cells = [None, None :: cell]\<rparr>"
  have a: "nearest_lookup ?a 650 = Inr 2"
    using nearest_lookup_minimises [of ?a 650] by (simp add: linear_scan_def)
  have b: "nearest_lookup ?b 560 = Inl ValueError"
    using nearest_lookup_minimises [of ?b 560] by (simp add: linear_scan_def)
  from a nearest_lookup_minimises [of ?a 650] have "\<exists>d. first_nearest (cells ?a) 650 2 d" by blast
  with a b show ?thesis by simp
qed

text \<open>
  Claim C2. Let \<open>m\<close> be the mean of the valid cells of a band and let the exponent
  \<open>gamma = log(0.2)/log(m)\<close> be computed. Then \<open>m\<close> to the power \<open>gamma\<close> is exactly
  \<open>0.2\<close> over the reals, the scaling of \<open>gamma_adjust\<close> (power, clip to \<open>[0,1]\<close>, NaN
  to 1) maps the value \<open>m\<close> to \<open>0.2\<close>, and \<open>gamma_adjust\<close> returns an array in which
  every cell that held \<open>m\<close> holds \<open>0.2\<close>.
\<close>

theorem gamma_maps_mean:
  assumes "getitem ds ''reflectance'' = Inr r" and "isel r ''bands'' band = Inr v"
    and "nanmean (arr v) = Some m" and "gamma_exponent (arr v) = Inr (Some g)"
  shows "g = ln (1 / 5) / ln m \<and> m powr g = 1 / 5 \<and>
     scale_cell (Some g) (Some m) = Some (1 / 5) \<and>
     (\<exists>out. gamma_adjust ds band = Inr out \<and>
        (\<forall>k<length (cells (arr v)). cells (arr v) ! k = Some m \<longrightarrow> cells out ! k = Some (1 / 5)))"
proof -
  from gamma_exponent_Some [OF assms(3,4)] have m: "0 < m" "m \<noteq> 1" and g: "g = ln (1 / 5) / ln m"
    by simp_all
  have p: "m powr g = 1 / 5" unfolding g using m by (rule powr_gamma)
  have s: "scale_cell (Some g) (Some m) = Some (1 / 5)" unfolding g using m by (rule scale_cell_mean)
  let ?out = "\<lparr>shape = shape (arr v), cells = map (scale_cell (Some g)) (cells (arr v))\<rparr>"
  have o: "gamma_adjust ds band = Inr ?out" using assms(1,2,4) by (rule gamma_adjust_Inr)
  have "\<forall>k<length (cells (arr v)). cells (arr v) ! k = Some m \<longrightarrow> cells ?out ! k = Some (1 / 5)"
    using s by simp
  with o have "\<exists>out. gamma_adjust ds band = Inr out \<and>
        (\<forall>k<length (cells (arr v)). cells (arr v) ! k = Some m \<longrightarrow> cells out ! k = Some (1 / 5))"
    by blast
  with g p s show ?thesis by blast
qed

theorem gamma_maps_mean_witness:
  "nanmean (arr (band_slice [1, 3] [Some (1 / 4), Some (1 / 2), Some (3 / 4)])) = Some (1 / 2) \<and>
   gamma_exponent (arr (band_slice [1, 3] [Some (1 / 4), Some (1 / 2), Some (3 / 4)]))
     = Inr (Some (ln (1 / 5) / ln (1 / 2))) \<and>
   (1 / 2) powr (ln (1 / 5) / ln (1 / 2)) = (1 / 5 :: real) \<and>
   scale_cell (Some (ln (1 / 5) / ln (1 / 2))) (Some (1 / 2)) = Some (1 / 5) \<and>
   (\<exists>out. gamma_adjust ex_means 0 = Inr out \<and> cells out ! 1 = Some (1 / 5))"
proof -
  let ?v = "band_slice [1, 3] [Some (1 / 4), Some (1 / 2), Some (3 / 4)]"
  have h: "getitem ex_means ''reflectance'' = Inr (grid_refl [1, 3, 3] ex_means_cells)"
    unfolding ex_means_def by (rule getitem_grid)
  have m: "nanmean (arr ?v) = Some (1 / 2)" by (simp add: nanmean_band_slice)
  have g: "gamma_exponent (arr ?v) = Inr (Some (ln (1 / 5) / ln (1 / 2)))"
    using gamma_exponent_ok [OF m] by simp
  note t = gamma_maps_mean [OF h isel_means_0 m g]
  from t obtain out where o: "gamma_adjust ex_means 0 = Inr out"
    "\<forall>k<length (cells (arr ?v)). cells (arr ?v) ! k = Some (1 / 2) \<longrightarrow> cells out ! k = Some (1 / 5)"
    by blast
  from o(2) have "cells out ! 1 = Some (1 / 5)" by (simp add: cells_band_slice)
  with o(1) have "\<exists>out. gamma_adjust ex_means 0 = Inr out \<and> cells out ! 1 = Some (1 / 5)"
    by blast
  with m g t show ?thesis by blast
qed

text \<open>
  Claim C3, as stated: after \<^verbatim>\<open>where(reflectance != -0.01)\<close> the number of missing
  cells equals the number of sentinel cells of the original array. This fails for an
  array that already has a missing cell: the cell stays missing and is counted.
\<close>

theorem mask_count_counterexample:
  "count_missing (mask_sentinel \<lparr>shape = [1, 1, 2], cells = [None, Some sentinel]\<rparr>)
   \<noteq> count_sentinel \<lparr>shape = [1, 1, 2], cells = [None, Some sentinel]\<rparr>"
  by (simp add: count_missing_def count_sentinel_def cells_mask_sentinel)

text \<open>
  Claim C3, amended. For every reflectance array, and for every band taken from it, the
  number of missing cells after the masking is the number of sentinel cells of the
  original plus the number of cells that were already missing; the two counts of the
  claim agree exactly when the original has no missing cell.
\<close>

theorem mask_count:
  "count_missing (mask_sentinel a) = count_sentinel a + count_missing a \<and>
   count_missing (take_axis (mask_sentinel a) ax b) =
     count_sentinel (take_axis a ax b) + count_missing (take_axis a ax b)"
  by (simp only: take_axis_mask_sentinel count_missing_mask_sentinel simp_thms)

text \<open>
  Claim C4. Three arrays \<open>r\<close>, \<open>g\<close>, \<open>b\<close> returned by \<open>gamma_adjust\<close>, all of shape
  \<open>(rows, cols)\<close>, are stacked by \<^verbatim>\<open>np.stack([r, g, b])\<close> without error into an array
  of shape \<open>(3, rows, cols)\<close> that holds the cells of \<open>r\<close>, \<open>g\<close> and \<open>b\<close> in this order,
  and every cell of it is a number in \<open>[0, 1]\<close>.
\<close>

theorem stack_shape_range:
  assumes "gamma_adjust ds1 b1 = Inr r" and "gamma_adjust ds2 b2 = Inr g"
    and "gamma_adjust ds3 b3 = Inr b"
    and "shape r = [rows, cols]" and "shape g = [rows, cols]" and "shape b = [rows, cols]"
  shows "\<exists>rgb. np_stack [r, g, b] = Inr rgb \<and> shape rgb = [3, rows, cols] \<and>
     cells rgb = cells r @ cells g @ cells b \<and>
     (\<forall>c \<in> set (cells rgb). \<exists>x. c = Some x \<and> 0 \<le> x \<and> x \<le> 1)"
proof -
  let ?rgb = "\<lparr>shape = [3, rows, cols], cells = cells r @ cells g @ cells b\<rparr>"
  have s: "np_stack [r, g, b] = Inr ?rgb" using assms(4,5,6) by (simp add: np_stack_def)
  have "\<forall>c \<in> set (cells ?rgb). \<exists>x. c = Some x \<and> 0 \<le> x \<and> x \<le> 1"
    using gamma_adjust_cells [OF assms(1)] gamma_adjust_cells [OF assms(2)]
      gamma_adjust_cells [OF assms(3)] by auto
  with s show ?thesis by (intro exI [of _ ?rgb]) simp
qed

theorem stack_shape_range_witness:
  "gamma_adjust ex_rgb 0 = Inr \<lparr>shape = [1, 2], cells = [Some (1 / 5), Some 1]\<rparr> \<and>
   gamma_adjust ex_rgb 1 = Inr \<lparr>shape = [1, 2], cells = [Some (1 / 5), Some (1 / 5)]\<rparr> \<and>
   gamma_adjust ex_rgb 2 = Inr \<lparr>shape = [1, 2], cells = [Some (1 / 5), Some 1]\<rparr> \<and>
   np_stack [\<lparr>shape = [1, 2], cells = [Some (1 / 5), Some 1]\<rparr>,
             \<lparr>shape = [1, 2], cells = [Some (1 / 5), Some (1 / 5)]\<rparr>,
             \<lparr>shape = [1, 2], cells = [Some (1 / 5), Some (1 :: real)]\<rparr>] =
     Inr \<lparr>shape = [3, 1, 2],
          cells = [Some (1 / 5), Some 1, Some (1 / 5), Some (1 / 5), Some (1 / 5), Some 1]\<rparr>"
proof -
  let ?r = "\<lparr>shape = [1, 2], cells = [Some (1 / 5), Some (1 :: real)]\<rparr>"
  let ?g = "\<lparr>shape = [1, 2], cells = [Some (1 / 5), Some (1 / 5 :: real)]\<rparr>"
  have s: "shape ?r = [1, 2]" "shape ?g = [1, 2]" by simp_all
  from stack_shape_range [OF gamma_adjust_rgb(1) gamma_adjust_rgb(2) gamma_adjust_rgb(3) s(1) s(2) s(1)]
  obtain rgb where
    "np_stack [?r, ?g, ?r] = Inr rgb" "shape rgb = [3, 1, 2]" "cells rgb = cells ?r @ cells ?g @ cells ?r"
    by blast
  then have "np_stack [?r, ?g, ?r] = Inr \<lparr>shape = [3, 1, 2],
          cells = [Some (1 / 5), Some 1, Some (1 / 5), Some (1 / 5), Some (1 / 5), Some 1]\<rparr>"
    by (cases rgb) simp
  with gamma_adjust_rgb show ?thesis by simp
qed

text \<open>
  Claim C5, as stated: the masking leaves every other variable of the dataset unchanged.
  This fails for the dataset method \<^verbatim>\<open>ds_geo.where(...)\<close>, which applies the
  selection to every data variable: in \<open>ex_two\<close> the variable \<open>other\<close> holds 8 where the
  reflectance holds the sentinel, and holds NaN after the masking.
\<close>

theorem mask_frame_counterexample:
  "map_of (data_vars ex_two) ''reflectance'' = Some ex_refl \<and>
   map_of (data_vars ex_two) ''other'' = Some ex_other \<and>
   mask_dataset (\<lambda>v _. v) ex_two =
     Inr (ex_two\<lparr>data_vars := [(''reflectance'', ex_refl_masked), (''other'', ex_other_masked)]\<rparr>) \<and>
   ex_other_masked \<noteq> ex_other"
  using mask_dataset_ex_two
  by (simp add: ex_two_def ex_other_def ex_other_masked_def)

text \<open>
  Claim C5, amended. On a dataset whose data variable \<open>reflectance\<close> is \<open>r\<close>, both forms of
  the masking, the assignment \<^verbatim>\<open>ds['reflectance'] = ds['reflectance'].where(...)\<close> and the
  dataset method \<^verbatim>\<open>ds_geo.where(...)\<close>, return a dataset whose reflectance has the
  dimensions and shape of \<open>r\<close>, with NaN in the cells that held the sentinel and every
  other cell as it was. The assignment leaves every other data variable, the coordinates
  and the attributes unchanged. The dataset method leaves the coordinates, the attributes
  and the names of the data variables unchanged and applies the same selection to every
  data variable: a data variable of the dimensions and shape of the reflectance gets NaN
  in the cells where the reflectance held the sentinel and keeps its other cells. So the
  dataset method, too, changes nothing but the reflectance when the reflectance is the
  only data variable.
\<close>

theorem mask_frame:
  assumes "map_of (data_vars ds) ''reflectance'' = Some r"
    and "''reflectance'' \<notin> fst ` set (coords ds)"
  shows "\<exists>ds1 ds2 r'.
     mask_reflectance bcast ds = Inr ds1 \<and> mask_dataset bcast ds = Inr ds2 \<and>
     map_of (data_vars ds1) ''reflectance'' = Some r' \<and>
     map_of (data_vars ds2) ''reflectance'' = Some r' \<and>
     dims r' = dims r \<and> shape (arr r') = shape (arr r) \<and>
     length (cells (arr r')) = length (cells (arr r)) \<and>
     (\<forall>k<length (cells (arr r)).
        cells (arr r') ! k = (if cells (arr r) ! k = Some sentinel then None else cells (arr r) ! k)) \<and>
     (\<forall>n. n \<noteq> ''reflectance'' \<longrightarrow> map_of (data_vars ds1) n = map_of (data_vars ds) n) \<and>
     map fst (data_vars ds1) = map fst (data_vars ds) \<and>
     coords ds1 = coords ds \<and> attrs ds1 = attrs ds \<and>
     map fst (data_vars ds2) = map fst (data_vars ds) \<and>
     coords ds2 = coords ds \<and> attrs ds2 = attrs ds \<and>
     (\<forall>n. map_of (data_vars ds2) n =
        map_option (\<lambda>v. da_where bcast v (da_ne r sentinel)) (map_of (data_vars ds) n)) \<and>
     (\<forall>n v. map_of (data_vars ds) n = Some v \<and> dims v = dims r \<and> shape (arr v) = shape (arr r) \<longrightarrow>
        (\<exists>v'. map_of (data_vars ds2) n = Some v' \<and> dims v' = dims v \<and>
           shape (arr v') = shape (arr v) \<and>
           (\<forall>k. k < length (cells (arr v)) \<and> k < length (cells (arr r)) \<longrightarrow>
              cells (arr v') ! k =
                (if cells (arr r) ! k = Some sentinel then None else cells (arr v) ! k)))) \<and>
     (map fst (data_vars ds) = [''reflectance''] \<longrightarrow> data_vars ds2 = [(''reflectance'', r')])"
proof -
  let ?r' = "\<lparr>dims = dims r, arr = mask_sentinel (arr r)\<rparr>"
  let ?ds1 = "ds\<lparr>data_vars := dict_set (data_vars ds) ''reflectance'' ?r'\<rparr>"
  let ?f = "\<lambda>v. da_where bcast v (da_ne r sentinel)"
  let ?ds2 = "ds\<lparr>data_vars := map (\<lambda>(n, v). (n, ?f v)) (data_vars ds)\<rparr>"
  have 1: "mask_reflectance bcast ds = Inr ?ds1" using assms by (rule mask_reflectance_eq)
  have 2: "mask_dataset bcast ds = Inr ?ds2" using assms(1) by (rule mask_dataset_eq)
  have 3: "map_of (data_vars ?ds1) ''reflectance'' = Some ?r'" by (simp add: map_of_dict_set)
  have 11: "\<forall>n. map_of (data_vars ?ds2) n = map_option ?f (map_of (data_vars ds) n)"
    by (simp add: map_of_map_snd)
  have 4: "map_of (data_vars ?ds2) ''reflectance'' = Some ?r'"
    using assms(1) by (simp add: map_of_map_snd da_where_self)
  have 5: "\<forall>k<length (cells (arr r)).
        cells (arr ?r') ! k = (if cells (arr r) ! k = Some sentinel then None else cells (arr r) ! k)"
    by (simp add: nth_mask_sentinel)
  have 6: "\<forall>n. n \<noteq> ''reflectance'' \<longrightarrow> map_of (data_vars ?ds1) n = map_of (data_vars ds) n"
    by (simp add: map_of_dict_set)
  have 7: "map fst (data_vars ?ds1) = map fst (data_vars ds)"
    using assms(1) by (simp add: map_fst_dict_set)
  have 8: "map fst (data_vars ?ds2) = map fst (data_vars ds)"
    using map_fst_map_snd [of ?f "data_vars ds"] by simp
  have 9: "dims ?r' = dims r \<and> shape (arr ?r') = shape (arr r) \<and>
     length (cells (arr ?r')) = length (cells (arr r))"
    by (simp add: shape_mask_sentinel cells_mask_sentinel)
  have 10: "coords ?ds1 = coords ds \<and> attrs ?ds1 = attrs ds \<and> coords ?ds2 = coords ds \<and> attrs ?ds2 = attrs ds"
    by simp
  have 12: "\<forall>n v. map_of (data_vars ds) n = Some v \<and> dims v = dims r \<and> shape (arr v) = shape (arr r) \<longrightarrow>
        (\<exists>v'. map_of (data_vars ?ds2) n = Some v' \<and> dims v' = dims v \<and>
           shape (arr v') = shape (arr v) \<and>
           (\<forall>k. k < length (cells (arr v)) \<and> k < length (cells (arr r)) \<longrightarrow>
              cells (arr v') ! k =
                (if cells (arr r) ! k = Some sentinel then None else cells (arr v) ! k)))"
  proof (intro allI impI)
    fix n v
    assume a: "map_of (data_vars ds) n = Some v \<and> dims v = dims r \<and> shape (arr v) = shape (arr r)"
    let ?v' = "\<lparr>dims = dims v, arr = where_values (arr v) (ne_scalar (arr r) sentinel)\<rparr>"
    from a have f: "?f v = ?v'" by (simp add: da_where_same_shape)
    with a 11 have m: "map_of (data_vars ?ds2) n = Some ?v'" by simp
    have s: "shape (arr ?v') = shape (arr v)" by (simp add: where_values_def)
    have c: "\<forall>k. k < length (cells (arr v)) \<and> k < length (cells (arr r)) \<longrightarrow>
              cells (arr ?v') ! k =
                (if cells (arr r) ! k = Some sentinel then None else cells (arr v) ! k)"
      by (simp add: nth_where_values)
    from m s c show "\<exists>v'. map_of (data_vars ?ds2) n = Some v' \<and> dims v' = dims v \<and>
           shape (arr v') = shape (arr v) \<and>
           (\<forall>k. k < length (cells (arr v)) \<and> k < length (cells (arr r)) \<longrightarrow>
              cells (arr v') ! k =
                (if cells (arr r) ! k = Some sentinel then None else cells (arr v) ! k))"
      by (intro exI [of _ ?v']) simp
  qed
  have 13: "map fst (data_vars ds) = [''reflectance''] \<longrightarrow> data_vars ?ds2 = [(''reflectance'', ?r')]"
  proof
    assume "map fst (data_vars ds) = [''reflectance'']"
    then obtain x where x: "data_vars ds = [(''reflectance'', x)]"
      by (cases "data_vars ds") auto
    with assms(1) have "x = r" by simp
    with x show "data_vars ?ds2 = [(''reflectance'', ?r')]" by (simp add: da_where_self)
  qed
  show ?thesis
    apply (rule exI [of _ ?ds1], rule exI [of _ ?ds2], rule exI [of _ ?r'])
    using 1 2 3 4 5 6 7 8 9 10 11 12 13 by blast
qed

theorem mask_frame_witness:
  "map_of (data_vars ex_two) ''reflectance'' = Some ex_refl \<and>
   ''reflectance'' \<notin> fst ` set (coords ex_two) \<and>
   mask_reflectance (\<lambda>v _. v) ex_two =
     Inr (ex_two\<lparr>data_vars := [(''reflectance'', ex_refl_masked), (''other'', ex_other)]\<rparr>) \<and>
   mask_dataset (\<lambda>v _. v) ex_two =
     Inr (ex_two\<lparr>data_vars := [(''reflectance'', ex_refl_masked), (''other'', ex_other_masked)]\<rparr>) \<and>
   map_of (data_vars ex_mask) ''reflectance'' = Some ex_refl \<and>
   ''reflectance'' \<notin> fst ` set (coords ex_mask) \<and>
   map fst (data_vars ex_mask) = [''reflectance''] \<and>
   mask_reflectance (\<lambda>v _. v) ex_mask = Inr ex_masked \<and>
   mask_dataset (\<lambda>v _. v) ex_mask = Inr ex_masked \<and>
   coords ex_masked = coords ex_mask \<and> attrs ex_masked = attrs ex_mask"
proof -
  from mask_frame [OF ex_two_reflectance ex_two_not_coord, of "\<lambda>v _. v"] obtain ds1 ds2 where
    t: "mask_reflectance (\<lambda>v _. v) ex_two = Inr ds1" "mask_dataset (\<lambda>v _. v) ex_two = Inr ds2"
    by blast
  from t(1) have 1: "ds1 = ex_two\<lparr>data_vars := [(''reflectance'', ex_refl_masked), (''other'', ex_other)]\<rparr>"
    by (simp add: mask_reflectance_ex_two)
  from t(2) have 2: "ds2 =
      ex_two\<lparr>data_vars := [(''reflectance'', ex_refl_masked), (''other'', ex_other_masked)]\<rparr>"
    by (simp add: mask_dataset_ex_two)
  from mask_frame [OF ex_mask_reflectance ex_mask_not_coord, of "\<lambda>v _. v"] obtain ms1 ms2 where
    r: "mask_reflectance (\<lambda>v _. v) ex_mask = Inr ms1" "mask_dataset (\<lambda>v _. v) ex_mask = Inr ms2"
      "coords ms1 = coords ex_mask" "attrs ms1 = attrs ex_mask"
    by blast
  from r(1) have "ms1 = ex_masked" by (simp add: mask_reflectance_ex_mask)
  with r(3,4) have 3: "coords ex_masked = coords ex_mask \<and> attrs ex_masked = attrs ex_mask" by simp
  have 4: "map fst (data_vars ex_mask) = [''reflectance'']" by (simp add: ex_mask_def)
  show ?thesis
    using t 1 2 3 4 ex_two_reflectance ex_two_not_coord ex_mask_reflectance ex_mask_not_coord
      mask_reflectance_ex_mask mask_dataset_ex_mask
    by simp
qed

text \<open>
  Claim C6. The notebook has no exception handling. A run of its cells fails exactly
  when a cell fails, with the fault of the first cell that fails, and the fault is never
  an unbound name. Every one of the twenty cells fails exactly when one of its library
  calls fails after the calls before it in the cell have succeeded (or, from a namespace
  that lacks it, when a name it reads is unbound), and its fault is then the error that
  call raised, as it was raised; so do the callbacks of the last cell. The functions the
  cells are made of fail in the same way: the two forms of the masking with the error of
  the lookup of the reflectance, the nearest-band lookup with the error of the lookup of
  the wavelengths or of \<open>nanargmin\<close>, and \<open>gamma_adjust\<close> with the error of the first of
  its calls (variable lookup, band selection, logarithm, division) that fails.
\<close>

theorem library_errors_propagate:
  "(notebook lib fp = Inl f \<longleftrightarrow>
      (\<exists>i<length (notebook_cells lib fp). \<exists>s.
         run_cells (take i (notebook_cells lib fp)) empty_namespace = Inr s \<and>
         (notebook_cells lib fp ! i) s = Inl f)) \<and>
   (\<forall>n. notebook lib fp \<noteq> Inl (Unbound n)) \<and>
   length (notebook_cells lib fp) = 20 \<and>
   ((notebook_cells lib fp ! 0) s = Inl f \<longleftrightarrow>
        raises (gv_extension lib ''bokeh'') f) \<and>
   ((notebook_cells lib fp ! 1) s = Inl f \<longleftrightarrow>
        raises (nc_Dataset lib fp) f) \<and>
   ((notebook_cells lib fp ! 2) s = Inl f \<longleftrightarrow>
        (v_nc s = None \<and> f = Unbound ''ds'') \<or>
        (\<exists>h. v_nc s = Some h \<and>
          (raises (nc_groups lib h) f))) \<and>
   ((notebook_cells lib fp ! 3) s = Inl f \<longleftrightarrow>
        raises (open_dataset lib fp None) f) \<and>
   ((notebook_cells lib fp ! 4) s = Inl f \<longleftrightarrow>
        raises (open_dataset lib fp (Some ''sensor_band_parameters'')) f) \<and>
   ((notebook_cells lib fp ! 5) s = Inl f \<longleftrightarrow>
        (v_refl s = None \<and> f = Unbound ''refl'') \<or>
        (\<exists>r. v_refl s = Some r \<and>
          ((v_wvl s = None \<and> f = Unbound ''wvl'') \<or>
          (\<exists>w. v_wvl s = Some w \<and>
            (raises (xr_merge lib [r, w]) f))))) \<and>
   ((notebook_cells lib fp ! 6) s = Inl f \<longleftrightarrow>
        (v_ds s = None \<and> f = Unbound ''ds'') \<or>
        (\<exists>d. v_ds s = Some d \<and>
          (raises (ds_isel lib d [(''downtrack'', 660), (''crosstrack'', 370)]) f \<or>
          (\<exists>sel. ds_isel lib d [(''downtrack'', 660), (''crosstrack'', 370)] = Inr sel \<and>
            (raises (hvplot lib sel (Line ''reflectance'' ''bands'' ''black'')) f))))) \<and>
   ((notebook_cells lib fp ! 7) s = Inl f \<longleftrightarrow>
        (v_ds s = None \<and> f = Unbound ''ds'') \<or>
        (\<exists>d. v_ds s = Some d \<and>
          (raises (mask_reflectance (broadcast lib) d) f))) \<and>
   ((notebook_cells lib fp ! 8) s = Inl f \<longleftrightarrow>
        (v_refl s = None \<and> f = Unbound ''refl'') \<or>
        (\<exists>r. v_refl s = Some r \<and>
          (v_wvl s = None \<and> f = Unbound ''wvl''))) \<and>
   ((notebook_cells lib fp ! 9) s = Inl f \<longleftrightarrow>
        (v_ds s = None \<and> f = Unbound ''ds'') \<or>
        (\<exists>d. v_ds s = Some d \<and>
          (raises (ds_isel lib d [(''downtrack'', 660), (''crosstrack'', 370)]) f \<or>
          (\<exists>sel. ds_isel lib d [(''downtrack'', 660), (''crosstrack'', 370)] = Inr sel \<and>
            (raises (hvplot lib sel (Line ''reflectance'' ''wavelengths'' ''black'')) f))))) \<and>
   ((notebook_cells lib fp ! 10) s = Inl f \<longleftrightarrow>
        (v_ds s = None \<and> f = Unbound ''ds'') \<or>
        (\<exists>d. v_ds s = Some d \<and>
          (raises (nearest_band d 650) f \<or>
          (\<exists>b. nearest_band d 650 = Inr b \<and>
            (raises (ds_isel lib d [(''bands'', int b)]) f \<or>
            (\<exists>sel. ds_isel lib d [(''bands'', int b)] = Inr sel \<and>
              (raises (hvplot lib sel Image) f))))))) \<and>
   ((notebook_cells lib fp ! 11) s = Inl f \<longleftrightarrow>
        raises (open_dataset lib fp (Some ''location'')) f) \<and>
   ((notebook_cells lib fp ! 12) s = Inl f \<longleftrightarrow>
        raises (apply_gltx lib fp) f) \<and>
   ((notebook_cells lib fp ! 13) s = Inl f \<longleftrightarrow>
        (v_ds_geo s = None \<and> f = Unbound ''ds_geo'') \<or>
        (\<exists>d. v_ds_geo s = Some d \<and>
          ((v_b650 s = None \<and> f = Unbound ''b650'') \<or>
          (\<exists>b. v_b650 s = Some b \<and>
            (raises (ds_isel lib d [(''bands'', int b)]) f \<or>
            (\<exists>sel. ds_isel lib d [(''bands'', int b)] = Inr sel \<and>
              (raises (hvplot lib sel Image) f))))))) \<and>
   ((notebook_cells lib fp ! 14) s = Inl f \<longleftrightarrow>
        (v_ds_geo s = None \<and> f = Unbound ''ds_geo'') \<or>
        (\<exists>d. v_ds_geo s = Some d \<and>
          (raises (mask_dataset (broadcast lib) d) f))) \<and>
   ((notebook_cells lib fp ! 15) s = Inl f \<longleftrightarrow>
        geo_spectrum lib s ''black'' (- (61833 / 1000)) (- (3971 / 100)) = Inl f) \<and>
   ((notebook_cells lib fp ! 16) s = Inl f \<longleftrightarrow>
        (v_ds_geo s = None \<and> f = Unbound ''ds_geo'') \<or>
        (\<exists>d. v_ds_geo s = Some d \<and>
          (raises (nearest_band d 650) f \<or>
          (\<exists>r. nearest_band d 650 = Inr r \<and>
            (raises (nearest_band d 560) f \<or>
            (\<exists>g. nearest_band d 560 = Inr g \<and>
              (raises (nearest_band d 470) f))))))) \<and>
   ((notebook_cells lib fp ! 17) s = Inl f \<longleftrightarrow>
        (v_ds_geo s = None \<and> f = Unbound ''ds_geo'') \<or>
        (\<exists>d. v_ds_geo s = Some d \<and>
          ((v_b650 s = None \<and> f = Unbound ''b650'') \<or>
          (\<exists>b650. v_b650 s = Some b650 \<and>
            (raises (gamma_adjust d (int b650)) f \<or>
            (\<exists>r. gamma_adjust d (int b650) = Inr r \<and>
              ((v_b560 s = None \<and> f = Unbound ''b560'') \<or>
              (\<exists>b560. v_b560 s = Some b560 \<and>
                (raises (gamma_adjust d (int b560)) f \<or>
                (\<exists>g. gamma_adjust d (int b560) = Inr g \<and>
                  ((v_b470 s = None \<and> f = Unbound ''b470'') \<or>
                  (\<exists>b470. v_b470 s = Some b470 \<and>
                    (raises (gamma_adjust d (int b470)) f \<or>
                    (\<exists>b. gamma_adjust d (int b470) = Inr b \<and>
                      (raises (np_stack [r, g, b]) f \<or>
                      (\<exists>rgb. np_stack [r, g, b] = Inr rgb \<and>
                        (raises (getitem d ''Longitude'') f \<or>
                        (\<exists>x. getitem d ''Longitude'' = Inr x \<and>
                          (raises (getitem d ''Latitude'') f \<or>
                          (\<exists>y. getitem d ''Latitude'' = Inr y \<and>
                            (raises (xr_Dataset lib
           [(''RGB'', \<lparr>dims = [''bands'', ''Latitude'', ''Longitude''], arr = rgb\<rparr>)]
           [(''bands'', \<lparr>dims = [''bands''], arr = \<lparr>shape = [3], cells = [Some 0, Some 1, Some 2]\<rparr>\<rparr>),
            (''Latitude'', \<lparr>dims = [''Latitude''], arr = arr y\<rparr>),
            (''Longitude'', \<lparr>dims = [''Longitude''], arr = arr x\<rparr>)]
           (attrs d)) f))))))))))))))))))))) \<and>
   ((notebook_cells lib fp ! 18) s = Inl f \<longleftrightarrow>
        (v_ds_rgb s = None \<and> f = Unbound ''ds_rgb'') \<or>
        (\<exists>d. v_ds_rgb s = Some d \<and>
          (raises (hvplot lib d Rgb) f))) \<and>
   ((notebook_cells lib fp ! 19) s = Inl f \<longleftrightarrow>
        raises (display_html lib ''<style>div.output_scroll { height: 44em; }</style>'') f \<or>
        (\<exists>u. display_html lib ''<style>div.output_scroll { height: 44em; }</style>'' = Inr u \<and>
          ((v_map s = None \<and> f = Unbound ''map'') \<or>
          (\<exists>m. v_map s = Some m \<and>
            (raises (linked_view lib m (geo_spectrum lib s ''#1b9e77'') (geo_spectrum lib s ''#d95f02'')) f))))) \<and>
   (geo_spectrum lib s c x y = Inl f \<longleftrightarrow>
        (v_ds_geo s = None \<and> f = Unbound ''ds_geo'') \<or>
        (\<exists>d. v_ds_geo s = Some d \<and>
          (raises (ds_sel_nearest lib d [(''Longitude'', x), (''Latitude'', y)]) f \<or>
          (\<exists>sel. ds_sel_nearest lib d [(''Longitude'', x), (''Latitude'', y)] = Inr sel \<and>
            (raises (hvplot lib sel (Line ''reflectance'' ''wavelengths'' c)) f))))) \<and>
   (mask_reflectance bcast ds = Inl e \<longleftrightarrow> getitem ds ''reflectance'' = Inl e) \<and>
   (mask_dataset bcast ds = Inl e \<longleftrightarrow> getitem ds ''reflectance'' = Inl e) \<and>
   (nearest_band ds t = Inl e \<longleftrightarrow>
      getitem ds ''wavelengths'' = Inl e \<or>
      (\<exists>w. getitem ds ''wavelengths'' = Inr w \<and>
         nanargmin (np_abs (sub_scalar (arr w) t)) = Inl e)) \<and>
   (gamma_adjust ds band = Inl e \<longleftrightarrow>
      getitem ds ''reflectance'' = Inl e \<or>
      (\<exists>r. getitem ds ''reflectance'' = Inr r \<and>
         (isel r ''bands'' band = Inl e \<or>
          (\<exists>v. isel r ''bands'' band = Inr v \<and>
             (math_log (nanmean (arr v)) = Inl e \<or>
              (\<exists>den. math_log (nanmean (arr v)) = Inr den \<and>
                 py_truediv (Some (ln (1 / 5))) den = Inl e))))))"
proof (intro conjI)
  show "notebook lib fp = Inl f \<longleftrightarrow>
      (\<exists>i<length (notebook_cells lib fp). \<exists>s.
         run_cells (take i (notebook_cells lib fp)) empty_namespace = Inr s \<and>
         (notebook_cells lib fp ! i) s = Inl f)"
    unfolding notebook_def by (rule run_cells_Inl_iff)
  show "\<forall>n. notebook lib fp \<noteq> Inl (Unbound n)" by (simp add: notebook_bound)
  show "length (notebook_cells lib fp) = 20" by (rule notebook_cells_nth)
  show "(notebook_cells lib fp ! 0) s = Inl f \<longleftrightarrow>
        raises (gv_extension lib ''bokeh'') f"
    unfolding notebook_cells_nth by (rule cell_setup_fails)
  show "(notebook_cells lib fp ! 1) s = Inl f \<longleftrightarrow>
        raises (nc_Dataset lib fp) f"
    unfolding notebook_cells_nth by (rule cell_nc_open_fails)
  show "(notebook_cells lib fp ! 2) s = Inl f \<longleftrightarrow>
        (v_nc s = None \<and> f = Unbound ''ds'') \<or>
        (\<exists>h. v_nc s = Some h \<and>
          (raises (nc_groups lib h) f))"
    unfolding notebook_cells_nth by (rule cell_nc_groups_fails)
  show "(notebook_cells lib fp ! 3) s = Inl f \<longleftrightarrow>
        raises (open_dataset lib fp None) f"
    unfolding notebook_cells_nth by (rule cell_open_refl_fails)
  show "(notebook_cells lib fp ! 4) s = Inl f \<longleftrightarrow>
        raises (open_dataset lib fp (Some ''sensor_band_parameters'')) f"
    unfolding notebook_cells_nth by (rule cell_open_wvl_fails)
  show "(notebook_cells lib fp ! 5) s = Inl f \<longleftrightarrow>
        (v_refl s = None \<and> f = Unbound ''refl'') \<or>
        (\<exists>r. v_refl s = Some r \<and>
          ((v_wvl s = None \<and> f = Unbound ''wvl'') \<or>
          (\<exists>w. v_wvl s = Some w \<and>
            (raises (xr_merge lib [r, w]) f))))"
    unfolding notebook_cells_nth by (rule cell_merge_fails)
  show "(notebook_cells lib fp ! 6) s = Inl f \<longleftrightarrow>
        (v_ds s = None \<and> f = Unbound ''ds'') \<or>
        (\<exists>d. v_ds s = Some d \<and>
          (raises (ds_isel lib d [(''downtrack'', 660), (''crosstrack'', 370)]) f \<or>
          (\<exists>sel. ds_isel lib d [(''downtrack'', 660), (''crosstrack'', 370)] = Inr sel \<and>
            (raises (hvplot lib sel (Line ''reflectance'' ''bands'' ''black'')) f))))"
    unfolding notebook_cells_nth by (rule cell_spectrum_fails)
  show "(notebook_cells lib fp ! 7) s = Inl f \<longleftrightarrow>
        (v_ds s = None \<and> f = Unbound ''ds'') \<or>
        (\<exists>d. v_ds s = Some d \<and>
          (raises (mask_reflectance (broadcast lib) d) f))"
    unfolding notebook_cells_nth by (rule cell_mask_fails)
  show "(notebook_cells lib fp ! 8) s = Inl f \<longleftrightarrow>
        (v_refl s = None \<and> f = Unbound ''refl'') \<or>
        (\<exists>r. v_refl s = Some r \<and>
          (v_wvl s = None \<and> f = Unbound ''wvl''))"
    unfolding notebook_cells_nth by (rule cell_del_fails)
  show "(notebook_cells lib fp ! 9) s = Inl f \<longleftrightarrow>
        (v_ds s = None \<and> f = Unbound ''ds'') \<or>
        (\<exists>d. v_ds s = Some d \<and>
          (raises (ds_isel lib d [(''downtrack'', 660), (''crosstrack'', 370)]) f \<or>
          (\<exists>sel. ds_isel lib d [(''downtrack'', 660), (''crosstrack'', 370)] = Inr sel \<and>
            (raises (hvplot lib sel (Line ''reflectance'' ''wavelengths'' ''black'')) f))))"
    unfolding notebook_cells_nth by (rule cell_spectrum_fails)
  show "(notebook_cells lib fp ! 10) s = Inl f \<longleftrightarrow>
        (v_ds s = None \<and> f = Unbound ''ds'') \<or>
        (\<exists>d. v_ds s = Some d \<and>
          (raises (nearest_band d 650) f \<or>
          (\<exists>b. nearest_band d 650 = Inr b \<and>
            (raises (ds_isel lib d [(''bands'', int b)]) f \<or>
            (\<exists>sel. ds_isel lib d [(''bands'', int b)] = Inr sel \<and>
              (raises (hvplot lib sel Image) f))))))"
    unfolding notebook_cells_nth by (rule cell_band_image_fails)
  show "(notebook_cells lib fp ! 11) s = Inl f \<longleftrightarrow>
        raises (open_dataset lib fp (Some ''location'')) f"
    unfolding notebook_cells_nth by (rule cell_open_loc_fails)
  show "(notebook_cells lib fp ! 12) s = Inl f \<longleftrightarrow>
        raises (apply_gltx lib fp) f"
    unfolding notebook_cells_nth by (rule cell_apply_glt_fails)
  show "(notebook_cells lib fp ! 13) s = Inl f \<longleftrightarrow>
        (v_ds_geo s = None \<and> f = Unbound ''ds_geo'') \<or>
        (\<exists>d. v_ds_geo s = Some d \<and>
          ((v_b650 s = None \<and> f = Unbound ''b650'') \<or>
          (\<exists>b. v_b650 s = Some b \<and>
            (raises (ds_isel lib d [(''bands'', int b)]) f \<or>
            (\<exists>sel. ds_isel lib d [(''bands'', int b)] = Inr sel \<and>
              (raises (hvplot lib sel Image) f))))))"
    unfolding notebook_cells_nth by (rule cell_geo_image_fails)
  show "(notebook_cells lib fp ! 14) s = Inl f \<longleftrightarrow>
        (v_ds_geo s = None \<and> f = Unbound ''ds_geo'') \<or>
        (\<exists>d. v_ds_geo s = Some d \<and>
          (raises (mask_dataset (broadcast lib) d) f))"
    unfolding notebook_cells_nth by (rule cell_geo_mask_fails)
  show "(notebook_cells lib fp ! 15) s = Inl f \<longleftrightarrow>
        geo_spectrum lib s ''black'' (- (61833 / 1000)) (- (3971 / 100)) = Inl f"
    unfolding notebook_cells_nth by (rule cell_geo_spectrum_fails)
  show "(notebook_cells lib fp ! 16) s = Inl f \<longleftrightarrow>
        (v_ds_geo s = None \<and> f = Unbound ''ds_geo'') \<or>
        (\<exists>d. v_ds_geo s = Some d \<and>
          (raises (nearest_band d 650) f \<or>
          (\<exists>r. nearest_band d 650 = Inr r \<and>
            (raises (nearest_band d 560) f \<or>
            (\<exists>g. nearest_band d 560 = Inr g \<and>
              (raises (nearest_band d 470) f))))))"
    unfolding notebook_cells_nth by (rule cell_nearest_bands_fails)
  show "(notebook_cells lib fp ! 17) s = Inl f \<longleftrightarrow>
        (v_ds_geo s = None \<and> f = Unbound ''ds_geo'') \<or>
        (\<exists>d. v_ds_geo s = Some d \<and>
          ((v_b650 s = None \<and> f = Unbound ''b650'') \<or>
          (\<exists>b650. v_b650 s = Some b650 \<and>
            (raises (gamma_adjust d (int b650)) f \<or>
            (\<exists>r. gamma_adjust d (int b650) = Inr r \<and>
              ((v_b560 s = None \<and> f = Unbound ''b560'') \<or>
              (\<exists>b560. v_b560 s = Some b560 \<and>
                (raises (gamma_adjust d (int b560)) f \<or>
                (\<exists>g. gamma_adjust d (int b560) = Inr g \<and>
                  ((v_b470 s = None \<and> f = Unbound ''b470'') \<or>
                  (\<exists>b470. v_b470 s = Some b470 \<and>
                    (raises (gamma_adjust d (int b470)) f \<or>
                    (\<exists>b. gamma_adjust d (int b470) = Inr b \<and>
                      (raises (np_stack [r, g, b]) f \<or>
                      (\<exists>rgb. np_stack [r, g, b] = Inr rgb \<and>
                        (raises (getitem d ''Longitude'') f \<or>
                        (\<exists>x. getitem d ''Longitude'' = Inr x \<and>
                          (raises (getitem d ''Latitude'') f \<or>
                          (\<exists>y. getitem d ''Latitude'' = Inr y \<and>
                            (raises (xr_Dataset lib
           [(''RGB'', \<lparr>dims = [''bands'', ''Latitude'', ''Longitude''], arr = rgb\<rparr>)]
           [(''bands'', \<lparr>dims = [''bands''], arr = \<lparr>shape = [3], cells = [Some 0, Some 1, Some 2]\<rparr>\<rparr>),
            (''Latitude'', \<lparr>dims = [''Latitude''], arr = arr y\<rparr>),
            (''Longitude'', \<lparr>dims = [''Longitude''], arr = arr x\<rparr>)]
           (attrs d)) f))))))))))))))))))))"
    unfolding notebook_cells_nth by (rule cell_rgb_fails)
  show "(notebook_cells lib fp ! 18) s = Inl f \<longleftrightarrow>
        (v_ds_rgb s = None \<and> f = Unbound ''ds_rgb'') \<or>
        (\<exists>d. v_ds_rgb s = Some d \<and>
          (raises (hvplot lib d Rgb) f))"
    unfolding notebook_cells_nth by (rule cell_map_fails)
  show "(notebook_cells lib fp ! 19) s = Inl f \<longleftrightarrow>
        raises (display_html lib ''<style>div.output_scroll { height: 44em; }</style>'') f \<or>
        (\<exists>u. display_html lib ''<style>div.output_scroll { height: 44em; }</style>'' = Inr u \<and>
          ((v_map s = None \<and> f = Unbound ''map'') \<or>
          (\<exists>m. v_map s = Some m \<and>
            (raises (linked_view lib m (geo_spectrum lib s ''#1b9e77'') (geo_spectrum lib s ''#d95f02'')) f))))"
    unfolding notebook_cells_nth by (rule cell_linked_fails)
  show "geo_spectrum lib s c x y = Inl f \<longleftrightarrow>
        (v_ds_geo s = None \<and> f = Unbound ''ds_geo'') \<or>
        (\<exists>d. v_ds_geo s = Some d \<and>
          (raises (ds_sel_nearest lib d [(''Longitude'', x), (''Latitude'', y)]) f \<or>
          (\<exists>sel. ds_sel_nearest lib d [(''Longitude'', x), (''Latitude'', y)] = Inr sel \<and>
            (raises (hvplot lib sel (Line ''reflectance'' ''wavelengths'' c)) f))))"
    by (rule geo_spectrum_fails)
  show "mask_reflectance bcast ds = Inl e \<longleftrightarrow> getitem ds ''reflectance'' = Inl e"
    by (rule mask_reflectance_Inl_iff)
  show "mask_dataset bcast ds = Inl e \<longleftrightarrow> getitem ds ''reflectance'' = Inl e"
    by (rule mask_dataset_Inl_iff)
  show "nearest_band ds t = Inl e \<longleftrightarrow>
      getitem ds ''wavelengths'' = Inl e \<or>
      (\<exists>w. getitem ds ''wavelengths'' = Inr w \<and>
         nanargmin (np_abs (sub_scalar (arr w) t)) = Inl e)"
    by (rule nearest_band_Inl_iff)
  show "gamma_adjust ds band = Inl e \<longleftrightarrow>
      getitem ds ''reflectance'' = Inl e \<or>
      (\<exists>r. getitem ds ''reflectance'' = Inr r \<and>
         (isel r ''bands'' band = Inl e \<or>
          (\<exists>v. isel r ''bands'' band = Inr v \<and>
             (math_log (nanmean (arr v)) = Inl e \<or>
              (\<exists>den. math_log (nanmean (arr v)) = Inr den \<and>
                 py_truediv (Some (ln (1 / 5))) den = Inl e)))))"
    by (rule gamma_adjust_Inl_iff)
qed

theorem library_errors_propagate_witness:
  "apply_gltx ex_library ''scene.nc'' = Inl OSError \<and>
   (\<exists>s. run_cells (take 12 (notebook_cells ex_library ''scene.nc'')) empty_namespace = Inr s) \<and>
   notebook ex_library ''scene.nc'' = Inl (Raised OSError) \<and>
   (\<exists>s. notebook ex_library_ok ''scene.nc'' = Inr s \<and> length (shown s) = 6)"
proof -
  have a: "apply_gltx ex_library ''scene.nc'' = Inl OSError" by (simp add: ex_library_def)
  have "\<exists>s. run_cells (take 12 (notebook_cells ex_library ''scene.nc'')) empty_namespace = Inr s"
    by (simp add: notebook_cells_def ex_library_def cell_setup_def cell_nc_open_def
        cell_nc_groups_def cell_open_refl_def cell_open_wvl_def cell_merge_def cell_spectrum_def
        cell_mask_def cell_del_def cell_band_image_def cell_open_loc_def py_call_def py_name_def
        empty_namespace_def mask_reflectance_ex_mask nearest_ex_masked)
  then obtain s where
    s: "run_cells (take 12 (notebook_cells ex_library ''scene.nc'')) empty_namespace = Inr s"
    by blast
  note t = library_errors_propagate
    [where lib = ex_library and fp = "''scene.nc''" and f = "Raised OSError" and s = s]
  note run = t [THEN conjunct1]
  note len = t [THEN conjunct2, THEN conjunct2, THEN conjunct1]
  note cell = t [THEN conjunct2, THEN conjunct2, THEN conjunct2, THEN conjunct2, THEN conjunct2, THEN conjunct2, THEN conjunct2, THEN conjunct2, THEN conjunct2, THEN conjunct2, THEN conjunct2, THEN conjunct2, THEN conjunct2, THEN conjunct2, THEN conjunct2, THEN conjunct1]
  from a have "raises (apply_gltx ex_library ''scene.nc'') (Raised OSError)"
    by (simp add: raises_def)
  with cell have c: "(notebook_cells ex_library ''scene.nc'' ! 12) s = Inl (Raised OSError)"
    by simp
  have "\<exists>i<length (notebook_cells ex_library ''scene.nc''). \<exists>s.
         run_cells (take i (notebook_cells ex_library ''scene.nc'')) empty_namespace = Inr s \<and>
         (notebook_cells ex_library ''scene.nc'' ! i) s = Inl (Raised OSError)"
    using s c len by (intro exI [of _ 12]) auto
  with run have "notebook ex_library ''scene.nc'' = Inl (Raised OSError)" by simp
  with a s notebook_runs show ?thesis by blast
qed

text \<open>
  Claim C8. Masking the sentinel twice is masking it once; after one masking the
  comparison with the sentinel is true in every cell, since a masked cell is NaN and
  NaN differs from the sentinel.
\<close>

theorem mask_idempotent:
  "mask_sentinel (mask_sentinel a) = mask_sentinel a \<and>
   cells (ne_scalar (mask_sentinel a) sentinel) = replicate (length (cells a)) True"
proof
  show "mask_sentinel (mask_sentinel a) = mask_sentinel a"
    by (rule ndarray.equality) (simp_all add: shape_mask_sentinel cells_mask_sentinel)
  show "cells (ne_scalar (mask_sentinel a) sentinel) = replicate (length (cells a)) True"
    by (simp add: ne_scalar_def cells_mask_sentinel map_replicate_const [symmetric] comp_def)
qed

text \<open>
  Claim C9, as stated: \<open>gamma_adjust\<close> is only defined when the mean \<open>m\<close> of the valid
  cells of the band satisfies \<open>0 < m\<close> and \<open>m \<noteq> 1\<close>. This fails for a band with no
  valid cell, such as band 1 of \<open>ex_masked\<close>, which the masking has emptied: the mean is
  NaN, the logarithm of NaN is NaN, nothing raises, and the result is an array of ones.
\<close>

theorem gamma_adjust_domain_counterexample:
  "getitem ex_masked ''reflectance'' = Inr ex_refl_masked \<and>
   isel ex_refl_masked ''bands'' 1 = Inr (band_slice [1, 1] [None]) \<and>
   nanmean (arr (band_slice [1, 1] [None])) = None \<and>
   gamma_adjust ex_masked 1 = Inr \<lparr>shape = [1, 1], cells = [Some 1]\<rparr>"
  using gamma_adjust_all_missing [OF getitem_ex_masked isel_masked_1 nanmean_masked_1]
    getitem_ex_masked isel_masked_1 nanmean_masked_1
  by (simp add: band_slice_def)

text \<open>
  Claim C9, amended. Let the selected band have a valid cell and let \<open>m\<close> be the mean of
  its valid cells. For \<open>m \<le> 0\<close> \<open>gamma_adjust\<close> raises ValueError (the logarithm), for
  \<open>m = 1\<close> it raises ZeroDivisionError, and for \<open>0 < m\<close>, \<open>m \<noteq> 1\<close> it returns an
  array. For a band with no valid cell the mean is NaN, nothing raises, and it returns an
  array of ones. So it returns exactly when the band has no valid cell or \<open>0 < m\<close> and
  \<open>m \<noteq> 1\<close>.
\<close>

theorem gamma_adjust_domain:
  assumes "getitem ds ''reflectance'' = Inr r" and "isel r ''bands'' band = Inr v"
  shows "(nanmean (arr v) = None \<longrightarrow>
        gamma_adjust ds band =
          Inr \<lparr>shape = shape (arr v), cells = replicate (length (cells (arr v))) (Some 1)\<rparr>) \<and>
     (\<forall>m. nanmean (arr v) = Some m \<longrightarrow>
        (m \<le> 0 \<longrightarrow> gamma_adjust ds band = Inl ValueError) \<and>
        (m = 1 \<longrightarrow> gamma_adjust ds band = Inl ZeroDivisionError) \<and>
        (0 < m \<and> m \<noteq> 1 \<longrightarrow> (\<exists>out. gamma_adjust ds band = Inr out))) \<and>
     ((\<exists>out. gamma_adjust ds band = Inr out) \<longleftrightarrow>
        nanmean (arr v) = None \<or> (\<exists>m. nanmean (arr v) = Some m \<and> 0 < m \<and> m \<noteq> 1))"
proof -
  have n: "nanmean (arr v) = None \<longrightarrow>
        gamma_adjust ds band =
          Inr \<lparr>shape = shape (arr v), cells = replicate (length (cells (arr v))) (Some 1)\<rparr>"
    using assms by (simp add: gamma_adjust_all_missing)
  have a: "\<And>m. nanmean (arr v) = Some m \<Longrightarrow> m \<le> 0 \<Longrightarrow> gamma_adjust ds band = Inl ValueError"
    using assms by (simp add: gamma_adjust_eq gamma_exponent_nonpos)
  have b: "\<And>m. nanmean (arr v) = Some m \<Longrightarrow> m = 1 \<Longrightarrow> gamma_adjust ds band = Inl ZeroDivisionError"
    using assms by (simp add: gamma_adjust_eq gamma_exponent_one)
  have c: "\<And>m. nanmean (arr v) = Some m \<Longrightarrow> 0 < m \<Longrightarrow> m \<noteq> 1 \<Longrightarrow> \<exists>out. gamma_adjust ds band = Inr out"
    using assms by (simp add: gamma_adjust_eq gamma_exponent_ok)
  have d: "(\<exists>out. gamma_adjust ds band = Inr out) \<longleftrightarrow>
        nanmean (arr v) = None \<or> (\<exists>m. nanmean (arr v) = Some m \<and> 0 < m \<and> m \<noteq> 1)"
  proof (cases "nanmean (arr v)")
    case None
    with n show ?thesis by simp
  next
    case (Some m)
    show ?thesis
    proof (cases "0 < m \<and> m \<noteq> 1")
      case True
      with Some c show ?thesis by simp
    next
      case False
      then have "m \<le> 0 \<or> m = 1" by auto
      with a [OF Some] b [OF Some] have "\<exists>e. gamma_adjust ds band = Inl e" by blast
      with Some False show ?thesis by auto
    qed
  qed
  from n a b c d show ?thesis by blast
qed

theorem gamma_adjust_domain_witness:
  "gamma_adjust ex_means 2 = Inl ValueError \<and>
   gamma_adjust ex_means 1 = Inl ZeroDivisionError \<and>
   (\<exists>out. gamma_adjust ex_means 0 = Inr out) \<and>
   gamma_adjust ex_masked 1 = Inr \<lparr>shape = [1, 1], cells = [Some 1]\<rparr>"
proof -
  have h: "getitem ex_means ''reflectance'' = Inr (grid_refl [1, 3, 3] ex_means_cells)"
    unfolding ex_means_def by (rule getitem_grid)
  have m0: "nanmean (arr (band_slice [1, 3] [Some (1 / 4), Some (1 / 2), Some (3 / 4)])) = Some (1 / 2)"
    by (simp add: nanmean_band_slice)
  have m1: "nanmean (arr (band_slice [1, 3] [Some (1 / 2), Some 1, Some (3 / 2)])) = Some 1"
    by (simp add: nanmean_band_slice)
  have m2: "nanmean (arr (band_slice [1, 3] [Some (- (1 / 2)), Some (1 / 4), None])) = Some (- (1 / 8))"
    by (simp add: nanmean_band_slice)
  from gamma_adjust_domain [OF h isel_means_2] m2 have "gamma_adjust ex_means 2 = Inl ValueError"
    by simp
  moreover from gamma_adjust_domain [OF h isel_means_1] m1
  have "gamma_adjust ex_means 1 = Inl ZeroDivisionError" by simp
  moreover have p: "0 < (1 / 2 :: real) \<and> (1 / 2 :: real) \<noteq> 1" by simp
  from gamma_adjust_domain [OF h isel_means_0] m0 p
  have "\<exists>out. gamma_adjust ex_means 0 = Inr out" by blast
  moreover from gamma_adjust_domain [OF getitem_ex_masked isel_masked_1] nanmean_masked_1
  have "gamma_adjust ex_masked 1 = Inr \<lparr>shape = [1, 1], cells = [Some 1]\<rparr>"
    by (simp add: band_slice_def)
  ultimately show ?thesis by blast
qed




end
